theory Spec2Isabelle
  imports Main "HOL-Library.AList" "HOL-Library.Char_ord" "HOL-Library.List_Lexorder"
begin

section \<open>JSON values, paths and property access\<close>

text \<open>
  The document is a tree of JavaScript values. An object is an association list from
  own property name to value (insertion order kept); an array is its list of elements
  together with the named (non-index) own properties that JavaScript lets an array carry.
  A hole of a sparse array reads as \<open>undefined\<close>, and every test this program makes on a
  hole has the outcome it has on \<open>undefined\<close>, so holes are stored as \<open>JUndef\<close>.

  Numbers in paths are integers, rendered in decimal as \<open>ToString\<close> does.

  Some member names are not ordinary data on a container and are modelled as JavaScript
  treats them: \<open>length\<close> of an array (an own property that reads as the number of
  elements, resizes the array when written and cannot be deleted); the methods the
  program calls on a container, \<open>hasOwnProperty\<close> and \<open>splice\<close>, and those a
  conversion to a number calls, \<open>toString\<close> and \<open>join\<close>, each hidden by an own
  property of its name; and \<open>__proto__\<close> (the accessor of \<open>Object.prototype\<close>,
  unless the container holds an own property of that name, as a value parsed from JSON
  can). Both source files are modules, hence strict code: a write to a property of a
  primitive and a delete of a non-configurable property raise \<open>TypeError\<close>.
\<close>

datatype jv =
    JUndef
  | JNull
  | JBool bool
  | JNum int
  | JStr string
  | JObj "(string \<times> jv) list"
  | JArr "jv list" "(string \<times> jv) list"

datatype seg = SStr string | SNum int

type_synonym Path = "seg list"

datatype action = Set | Del

text \<open>\<open>typeof x === 'number'\<close> on a path segment.\<close>

fun isNumber :: "seg \<Rightarrow> bool" where
  "isNumber (SNum _) = True"
| "isNumber (SStr _) = False"

text \<open>\<open>typeof x === 'object' && x !== null\<close>, and \<open>Array.isArray(x)\<close>.\<close>

fun isObject :: "jv \<Rightarrow> bool" where
  "isObject (JObj _) = True"
| "isObject (JArr _ _) = True"
| "isObject _ = False"

fun isArray :: "jv \<Rightarrow> bool" where
  "isArray (JArr _ _) = True"
| "isArray _ = False"

subsection \<open>Decimal rendering of numbers\<close>

definition digitChar :: "nat \<Rightarrow> char" where
  "digitChar d = char_of (48 + d)"

function showNat :: "nat \<Rightarrow> string" where
  "showNat n = (if n < 10 then [digitChar n] else showNat (n div 10) @ [digitChar (n mod 10)])"
  by pat_completeness auto
termination
  by (relation "measure id") auto

declare showNat.simps [simp del]

definition showInt :: "int \<Rightarrow> string" where
  "showInt i = (if i < 0 then CHR ''-'' # showNat (nat (- i)) else showNat (nat i))"

text \<open>\<open>ToString\<close> of a path segment: the property name it denotes on a plain object.\<close>

fun toPropertyName :: "seg \<Rightarrow> string" where
  "toPropertyName (SStr s) = s"
| "toPropertyName (SNum i) = showInt i"

subsection \<open>Array indices\<close>

text \<open>
  On an array a property key is an element index when it is the canonical decimal form of
  an integer below \<open>2^32 - 1\<close>; any other key names an ordinary property of the array
  object.
\<close>

datatype pkey = Idx nat | Name string

definition isDigit :: "char \<Rightarrow> bool" where
  "isDigit c = (48 \<le> (of_char c :: nat) \<and> (of_char c :: nat) \<le> 57)"

definition digitsValue :: "string \<Rightarrow> nat" where
  "digitsValue s = foldl (\<lambda>acc c. 10 * acc + ((of_char c :: nat) - 48)) 0 s"

definition isCanonicalIndex :: "string \<Rightarrow> bool" where
  "isCanonicalIndex s =
     (s \<noteq> [] \<and> list_all isDigit s \<and> (length s = 1 \<or> hd s \<noteq> CHR ''0'')
      \<and> digitsValue s < 4294967295)"

fun arrayKey :: "seg \<Rightarrow> pkey" where
  "arrayKey (SNum i) =
     (if 0 \<le> i \<and> i < 4294967295 then Idx (nat i) else Name (showInt i))"
| "arrayKey (SStr s) =
     (if isCanonicalIndex s then Idx (digitsValue s) else Name s)"


subsection \<open>Exceptions and the outcome of a mutation\<close>

datatype error = TypeError | RangeError

text \<open>
  What a mutation of a node comes to. \<open>Completed\<close>: it ran to its end, with the node as
  it then is. \<open>Abandoned\<close>: the client's walk left through one of its early \<open>return\<close>s.
  \<open>Thrown\<close>: an exception left the walk, with the node as mutated until then.
  \<open>NotTracked\<close>: the walk went on in an object that is not part of the document tree (it
  read or replaced a prototype), or needed the numeric value of a string that is not a
  plain run of digits (a floating-point conversion); the model does not follow it.
\<close>

datatype walked =
    Completed jv
  | Abandoned jv
  | Thrown error jv
  | NotTracked

subsection \<open>Reading one property\<close>

text \<open>Whether the container holds the key as an own property.\<close>

fun ownProperty :: "jv \<Rightarrow> seg \<Rightarrow> bool" where
  "ownProperty (JObj ps) k = (map_of ps (toPropertyName k) \<noteq> None)"
| "ownProperty (JArr es ps) k =
     (case arrayKey k of
        Idx n \<Rightarrow> n < length es
      | Name s \<Rightarrow> s = ''length'' \<or> map_of ps s \<noteq> None)"
| "ownProperty _ k = False"

text \<open>
  \<open>current.hasOwnProperty(segment)\<close>. The method is found on \<open>Object.prototype\<close>
  unless the container has an own property named \<open>hasOwnProperty\<close>; that property holds
  a JSON value, which is not callable, and the call raises \<open>TypeError\<close>. The program
  makes the call on containers only.
\<close>

definition hasOwnProperty :: "jv \<Rightarrow> seg \<Rightarrow> error + bool" where
  "hasOwnProperty current k =
     (if ownProperty current (SStr ''hasOwnProperty'') \<or> current = JNull \<or> current = JUndef
      then Inl TypeError
      else Inr (ownProperty current k))"

text \<open>
  The key \<open>__proto__\<close> on a container without an own property of that name: reading it
  gives the prototype object, writing it goes to the setter of \<open>Object.prototype\<close>.
\<close>

definition protoMember :: "jv \<Rightarrow> seg \<Rightarrow> bool" where
  "protoMember current k =
     (isObject current \<and> toPropertyName k = ''__proto__'' \<and> \<not> ownProperty current k)"

text \<open>
  \<open>current[segment]\<close>, read, for an own property; \<open>undefined\<close> otherwise. For a key
  that is not own the program uses the value read in one way only, in the test
  \<open>typeof current[key] !== 'object'\<close> of the server: there an inherited method (a
  function) and \<open>undefined\<close> give the same answer, and \<open>__proto__\<close> is asked for by
  \<open>protoMember\<close>.
\<close>

fun getProp :: "jv \<Rightarrow> seg \<Rightarrow> jv" where
  "getProp (JObj ps) k = (case map_of ps (toPropertyName k) of None \<Rightarrow> JUndef | Some x \<Rightarrow> x)"
| "getProp (JArr es ps) k =
     (case arrayKey k of
        Idx n \<Rightarrow> (if n < length es then es ! n else JUndef)
      | Name s \<Rightarrow> (if s = ''length'' then JNum (int (length es))
                   else (case map_of ps s of None \<Rightarrow> JUndef | Some x \<Rightarrow> x)))"
| "getProp _ k = JUndef"

text \<open>
  \<open>key in current\<close> on a container, as far as the program depends on it: an own
  property or \<open>__proto__\<close>. The other inherited members are functions, for which the
  second test of the server's condition holds whatever this one answers.
\<close>

definition inOperator :: "jv \<Rightarrow> seg \<Rightarrow> bool" where
  "inOperator current k = (ownProperty current k \<or> protoMember current k)"

text \<open>\<open>typeof x === 'object'\<close>, which holds of \<open>null\<close> too.\<close>

definition typeofObject :: "jv \<Rightarrow> bool" where
  "typeofObject x = (isObject x \<or> x = JNull)"

subsection \<open>Writing one property\<close>

text \<open>
  The value written to \<open>length\<close> of an array is converted by \<open>ToNumber\<close> and must be
  an integer below \<open>2^32\<close>, else \<open>RangeError\<close> is raised. A string of white space is
  \<open>0\<close>, a string of digits is its value, a string without any digit is \<open>NaN\<close> or an
  infinity; an object converts through \<open>toString\<close> to \<open>"[object Object]"\<close>, hence
  \<open>NaN\<close>, unless an own \<open>toString\<close> hides the method, which raises \<open>TypeError\<close>; an
  empty array converts through \<open>join\<close> to the empty string. Other strings and arrays need
  the rounding of a decimal to a double and are not computed.
\<close>

datatype coerced = Length nat | Invalid error | NotComputed

definition isWhiteSpace :: "char \<Rightarrow> bool" where
  "isWhiteSpace c = ((of_char c :: nat) \<in> {9, 10, 11, 12, 13, 32, 160})"

fun toArrayLength :: "jv \<Rightarrow> coerced" where
  "toArrayLength JUndef = Invalid RangeError"
| "toArrayLength JNull = Length 0"
| "toArrayLength (JBool b) = Length (if b then 1 else 0)"
| "toArrayLength (JNum i) =
     (if 0 \<le> i \<and> i < 4294967296 then Length (nat i) else Invalid RangeError)"
| "toArrayLength (JStr s) =
     (if list_all isWhiteSpace s then Length 0
      else if list_all isDigit s then
        (if digitsValue s < 4294967296 then Length (digitsValue s) else Invalid RangeError)
      else if \<not> list_ex isDigit s then Invalid RangeError
      else NotComputed)"
| "toArrayLength (JObj ps) =
     (if map_of ps ''toString'' \<noteq> None then Invalid TypeError else Invalid RangeError)"
| "toArrayLength (JArr es ps) =
     (if map_of ps ''toString'' \<noteq> None then Invalid TypeError
      else if map_of ps ''join'' \<noteq> None then Invalid RangeError
      else if es = [] then Length 0
      else NotComputed)"

text \<open>\<open>array.length = n\<close>: cut the elements off, or pad with holes.\<close>

definition resize :: "nat \<Rightarrow> jv list \<Rightarrow> jv list" where
  "resize n es = (if n \<le> length es then take n es else es @ replicate (n - length es) JUndef)"

text \<open>
  \<open>current[segment] = x\<close>. Writing past the end of an array extends it, the gap reading
  as \<open>undefined\<close>. Writing \<open>__proto__\<close> where it is not an own property calls the
  setter, which ignores a value that is neither an object nor \<open>null\<close> and otherwise
  replaces the prototype. Writing a property of a primitive raises \<open>TypeError\<close>.
\<close>

fun setProp :: "jv \<Rightarrow> seg \<Rightarrow> jv \<Rightarrow> walked" where
  "setProp (JObj ps) k x =
     (if protoMember (JObj ps) k then (if typeofObject x then NotTracked else Completed (JObj ps))
      else Completed (JObj (AList.update (toPropertyName k) x ps)))"
| "setProp (JArr es ps) k x =
     (case arrayKey k of
        Idx n \<Rightarrow> (if n < length es then Completed (JArr (es[n := x]) ps)
                  else Completed (JArr (es @ replicate (n - length es) JUndef @ [x]) ps))
      | Name s \<Rightarrow>
          (if s = ''length'' then
             (case toArrayLength x of
                Length n \<Rightarrow> Completed (JArr (resize n es) ps)
              | Invalid e \<Rightarrow> Thrown e (JArr es ps)
              | NotComputed \<Rightarrow> NotTracked)
           else if protoMember (JArr es ps) k then
             (if typeofObject x then NotTracked else Completed (JArr es ps))
           else Completed (JArr es (AList.update s x ps))))"
| "setProp v k x = Thrown TypeError v"

text \<open>
  The node with the child in one of its own slots replaced: the effect on a node of a
  mutation made in place inside that child.
\<close>

fun putProp :: "jv \<Rightarrow> seg \<Rightarrow> jv \<Rightarrow> jv" where
  "putProp (JObj ps) k x = JObj (AList.update (toPropertyName k) x ps)"
| "putProp (JArr es ps) k x =
     (case arrayKey k of
        Idx n \<Rightarrow> (if n < length es then JArr (es[n := x]) ps else JArr es ps)
      | Name s \<Rightarrow> (if s = ''length'' then JArr es ps else JArr es (AList.update s x ps)))"
| "putProp v k x = v"

fun inSlot :: "jv \<Rightarrow> seg \<Rightarrow> walked \<Rightarrow> walked" where
  "inSlot current k (Completed child) = Completed (putProp current k child)"
| "inSlot current k (Abandoned child) = Abandoned (putProp current k child)"
| "inSlot current k (Thrown e child) = Thrown e (putProp current k child)"
| "inSlot current k NotTracked = NotTracked"

subsection \<open>Deleting one property\<close>

text \<open>
  \<open>delete current[segment]\<close>: on an array element it leaves a hole; \<open>length\<close> of an
  array is not configurable and the delete raises \<open>TypeError\<close>.
\<close>

fun deleteProp :: "jv \<Rightarrow> seg \<Rightarrow> walked" where
  "deleteProp (JObj ps) k = Completed (JObj (AList.delete (toPropertyName k) ps))"
| "deleteProp (JArr es ps) k =
     (case arrayKey k of
        Idx n \<Rightarrow> Completed (JArr (es[n := JUndef]) ps)
      | Name s \<Rightarrow> (if s = ''length'' then Thrown TypeError (JArr es ps)
                   else Completed (JArr es (AList.delete s ps))))"
| "deleteProp v k = Completed v"

text \<open>
  \<open>current.splice(i, 1)\<close> for an index already checked to be in range. The method is
  found on \<open>Array.prototype\<close> unless the array has an own property named \<open>splice\<close>,
  which the server's \<open>deepSet\<close> can store on it; the call then raises \<open>TypeError\<close>.
\<close>

fun splice1 :: "jv \<Rightarrow> nat \<Rightarrow> jv" where
  "splice1 (JArr es ps) i = JArr (take i es @ drop (Suc i) es) ps"
| "splice1 v i = v"

fun arrayLength :: "jv \<Rightarrow> int" where
  "arrayLength (JArr es ps) = int (length es)"
| "arrayLength v = 0"

text \<open>
  The terminal step of a delete, the same text in the client's \<open>applyOperation\<close> and in
  the server's \<open>deepDelete\<close>: splice an in-range index out of an array, delete an own
  property of a container, do nothing otherwise.
\<close>

definition deleteOwn :: "jv \<Rightarrow> seg \<Rightarrow> walked" where
  "deleteOwn current lastSegment =
     (if isObject current then
        (case hasOwnProperty current lastSegment of
           Inl e \<Rightarrow> Thrown e current
         | Inr own \<Rightarrow> (if own then deleteProp current lastSegment else Completed current))
      else Completed current)"

fun deleteLast :: "jv \<Rightarrow> seg \<Rightarrow> walked" where
  "deleteLast current (SNum i) =
     (if isArray current then
        (if 0 \<le> i \<and> i < arrayLength current then
           (if ownProperty current (SStr ''splice'') then Thrown TypeError current
            else Completed (splice1 current (nat i)))
         else Completed current)
      else deleteOwn current (SNum i))"
| "deleteLast current (SStr s) = deleteOwn current (SStr s)"

text \<open>
  \<open>path[path.length - 1]\<close>. For the empty path this is \<open>undefined\<close>, which as a
  property key is the name \<open>"undefined"\<close> and is not a number.
\<close>

definition undefinedKey :: seg where
  "undefinedKey = SStr ''undefined''"

section \<open>Operations and metadata\<close>

record meta =
  m_timestamp :: int
  m_actorId :: string
  m_version :: int

text \<open>The wire-level \<open>Operation\<close>; an absent \<open>value\<close> is \<open>JUndef\<close>.\<close>

record operation =
  op_id :: string
  op_path :: Path
  op_kind :: action
  op_value :: jv
  op_timestamp :: int
  op_actorId :: string
  op_version :: int

subsection \<open>The metadata key: \<open>JSON.stringify(path)\<close>\<close>

definition hexDigit :: "nat \<Rightarrow> char" where
  "hexDigit d = (if d < 10 then char_of (48 + d) else char_of (87 + d))"

definition quoteChar :: "char \<Rightarrow> string" where
  "quoteChar c =
     (if c = CHR 0x22 then [CHR 0x5C, CHR 0x22]
      else if c = CHR 0x5C then [CHR 0x5C, CHR 0x5C]
      else if c = CHR 0x08 then [CHR 0x5C, CHR ''b'']
      else if c = CHR 0x09 then [CHR 0x5C, CHR ''t'']
      else if c = CHR 0x0A then [CHR 0x5C, CHR ''n'']
      else if c = CHR 0x0C then [CHR 0x5C, CHR ''f'']
      else if c = CHR 0x0D then [CHR 0x5C, CHR ''r'']
      else if (of_char c :: nat) < 32
        then [CHR 0x5C, CHR ''u'', CHR ''0'', CHR ''0'',
              hexDigit ((of_char c :: nat) div 16), hexDigit ((of_char c :: nat) mod 16)]
      else [c])"

fun stringifySeg :: "seg \<Rightarrow> string" where
  "stringifySeg (SStr s) = CHR 0x22 # concat (map quoteChar s) @ [CHR 0x22]"
| "stringifySeg (SNum i) = showInt i"

fun commaSep :: "string list \<Rightarrow> string" where
  "commaSep [] = []"
| "commaSep [x] = x"
| "commaSep (x # y # ys) = x @ CHR '','' # commaSep (y # ys)"

definition stringifyPath :: "Path \<Rightarrow> string" where
  "stringifyPath p = CHR ''['' # commaSep (map stringifySeg p) @ [CHR '']'']"

type_synonym MetadataMap = "string \<rightharpoonup> meta"

section \<open>The LWW comparison\<close>

text \<open>
  The comparison is written out twice in the source, once in the client's
  \<open>applyOperation\<close> and once in the server's \<open>operation\<close> handler. Both texts are
  modelled, each as it stands.
\<close>

definition incomingWinsByTimestamp :: "operation \<Rightarrow> meta \<Rightarrow> bool" where
  "incomingWinsByTimestamp op existingMetadata = (op_timestamp op > m_timestamp existingMetadata)"

definition timestampsAreEqual :: "operation \<Rightarrow> meta \<Rightarrow> bool" where
  "timestampsAreEqual op existingMetadata = (op_timestamp op = m_timestamp existingMetadata)"

definition incomingWinsByActorId :: "operation \<Rightarrow> meta \<Rightarrow> bool" where
  "incomingWinsByActorId op existingMetadata =
     (timestampsAreEqual op existingMetadata \<and> op_actorId op < m_actorId existingMetadata)"

text \<open>Client: the flag \<open>apply\<close> of \<open>applyOperation(op, isRemote)\<close>.\<close>

definition clientApply :: "MetadataMap \<Rightarrow> operation \<Rightarrow> bool \<Rightarrow> bool" where
  "clientApply metadata op isRemote =
     (case metadata (stringifyPath (op_path op)) of
        None \<Rightarrow> True
      | Some existingMetadata \<Rightarrow>
          (if isRemote then
             (let incomingWins = (incomingWinsByTimestamp op existingMetadata
                                   \<or> incomingWinsByActorId op existingMetadata)
              in (if \<not> incomingWins then False else True))
           else True))"

text \<open>Server: the flag \<open>applyServerOp\<close> of the \<open>operation\<close> handler.\<close>

definition applyServerOp :: "MetadataMap \<Rightarrow> operation \<Rightarrow> bool" where
  "applyServerOp currentRoomMetadata operation =
     (case currentRoomMetadata (stringifyPath (op_path operation)) of
        None \<Rightarrow> True
      | Some existingMetadata \<Rightarrow>
          (if \<not> incomingWinsByTimestamp operation existingMetadata
              \<and> \<not> incomingWinsByActorId operation existingMetadata
           then False else True))"


section \<open>Tree walks\<close>

subsection \<open>Client: the walk inside \<open>applyOperation\<close>\<close>

text \<open>
  The loop over all but the last segment, then the terminal step. The in-place mutation
  of a child is written as putting the walked child back in its slot. After the
  assignment of a fresh container the loop reads \<open>current[segment]\<close> back, which is the
  container just stored except on the two names that are not data: on \<open>length\<close> of an
  array it is the new length, and on an inherited \<open>__proto__\<close> the walk has left the
  tree.
\<close>

definition freshContainer :: "seg \<Rightarrow> jv" where
  "freshContainer next = (if isNumber next then JArr [] [] else JObj [])"

fun walk :: "action \<Rightarrow> jv \<Rightarrow> Path \<Rightarrow> jv \<Rightarrow> walked" where
  "walk Set current [] targetValue = setProp current undefinedKey targetValue"
| "walk Del current [] targetValue = deleteLast current undefinedKey"
| "walk Set current [lastSegment] targetValue = setProp current lastSegment targetValue"
| "walk Del current [lastSegment] targetValue = deleteLast current lastSegment"
| "walk a current (segment # next # rest) targetValue =
     (if \<not> isObject current then Abandoned current
      else
        (case hasOwnProperty current segment of
           Inl e \<Rightarrow> Thrown e current
         | Inr own \<Rightarrow>
             (if \<not> own
                 \<or> getProp current segment = JNull
                 \<or> \<not> typeofObject (getProp current segment)
                 \<or> (isArray (getProp current segment) \<noteq> isNumber next)
              then
                (case a of
                   Set \<Rightarrow>
                     (case setProp current segment (freshContainer next) of
                        Completed current1 \<Rightarrow>
                          inSlot current1 segment
                            (walk a (getProp current1 segment) (next # rest) targetValue)
                      | Abandoned current1 \<Rightarrow> Abandoned current1
                      | Thrown e current1 \<Rightarrow> Thrown e current1
                      | NotTracked \<Rightarrow> NotTracked)
                 | Del \<Rightarrow> Abandoned current)
              else inSlot current segment
                     (walk a (getProp current segment) (next # rest) targetValue))))"

text \<open>
  The public \<open>get(path)\<close>, from a current node. It calls
  \<open>current.hasOwnProperty(segment)\<close> and raises what that call raises.
\<close>

fun getFrom :: "jv \<Rightarrow> Path \<Rightarrow> error + jv" where
  "getFrom current [] = Inr current"
| "getFrom current (segment # rest) =
     (if current = JNull \<or> \<not> typeofObject current then Inr JUndef
      else
        (case hasOwnProperty current segment of
           Inl e \<Rightarrow> Inl e
         | Inr own \<Rightarrow> (if \<not> own then Inr JUndef else getFrom (getProp current segment) rest)))"

subsection \<open>Server: \<open>deepSet\<close> and \<open>deepDelete\<close>\<close>

text \<open>
  The condition of both loops, \<open>!(key in current) || typeof current[key] !== 'object'
  || current[key] === null\<close>. When it fails and the key is an inherited \<open>__proto__\<close>,
  the loop goes on inside the prototype object. \<open>key in current\<close> raises \<open>TypeError\<close>
  on a primitive, which \<open>current\<close> is after a write to \<open>length\<close> of an array.
\<close>

definition noContainerAt :: "jv \<Rightarrow> seg \<Rightarrow> bool" where
  "noContainerAt current key =
     (\<not> inOperator current key
      \<or> \<not> (protoMember current key \<or> typeofObject (getProp current key))
      \<or> (\<not> protoMember current key \<and> getProp current key = JNull))"

fun deepSet :: "jv \<Rightarrow> Path \<Rightarrow> jv \<Rightarrow> walked" where
  "deepSet current [] v = setProp current undefinedKey v"
| "deepSet current [k] v = setProp current k v"
| "deepSet current (key # next # rest) v =
     (if \<not> isObject current then Thrown TypeError current
      else if noContainerAt current key then
        (case setProp current key (freshContainer next) of
           Completed current1 \<Rightarrow>
             inSlot current1 key (deepSet (getProp current1 key) (next # rest) v)
         | Abandoned current1 \<Rightarrow> Abandoned current1
         | Thrown e current1 \<Rightarrow> Thrown e current1
         | NotTracked \<Rightarrow> NotTracked)
      else if protoMember current key then NotTracked
      else inSlot current key (deepSet (getProp current key) (next # rest) v))"

fun deepDelete :: "jv \<Rightarrow> Path \<Rightarrow> walked" where
  "deepDelete current [] = deleteLast current undefinedKey"
| "deepDelete current [lastSegment] = deleteLast current lastSegment"
| "deepDelete current (key # next # rest) =
     (if \<not> isObject current then Thrown TypeError current
      else if noContainerAt current key then Completed current
      else if protoMember current key then NotTracked
      else inSlot current key (deepDelete (getProp current key) (next # rest)))"

text \<open>
  Whether a set-walk along a path meets an existing intermediate value that is a container
  of the wrong kind for the segment that follows it: an array where the next segment is a
  string, a mapping where it is a number.
\<close>

fun wrongKindOnPath :: "jv \<Rightarrow> Path \<Rightarrow> bool" where
  "wrongKindOnPath current (segment # next # rest) =
     (ownProperty current segment \<and> isObject (getProp current segment)
      \<and> (isArray (getProp current segment) \<noteq> isNumber next
           \<or> wrongKindOnPath (getProp current segment) (next # rest)))"
| "wrongKindOnPath current p = False"

text \<open>
  The root of a document is an object (\<open>Record<string, any>\<close> on the client, \<open>{}\<close> on
  the server), so documents are stored as property lists; \<open>rootProps\<close> reads the
  properties back from a walked root.
\<close>

type_synonym Document = "(string \<times> jv) list"

fun rootProps :: "jv \<Rightarrow> Document" where
  "rootProps (JObj ps) = ps"
| "rootProps v = []"

section \<open>The client replica: \<open>CollabDoc\<close>\<close>

text \<open>
  What a replica does to the outside is recorded in order: an event given to its listeners
  (\<open>this.emit\<close>), a message handed to the transport (\<open>this.socket.emit\<close>), a call of
  the transport's \<open>connect()\<close> and \<open>disconnect()\<close>, or an exception that leaves the
  method or handler (\<open>Raises\<close>; nothing in the class catches one). \<open>Untracked\<close> marks a
  call whose walk was \<open>NotTracked\<close>: what the replica is afterwards is not described.
  Listeners are observers: they do not call back into the replica, and an exception of
  theirs is caught by \<open>emit\<close>. Console output is not recorded.

  Values are trees. In the source the operation that \<open>set\<close> queues and the document
  share the container passed as value, so a later write below that path shows in the
  queued operation too; the scenarios of this theory queue and buffer scalar values.
\<close>

datatype event =
    Change Path action jv bool
  | Connect
  | Disconnect string
  | Synced
  | Error jv
  | Pause
  | Resume

text \<open>The three messages of the transport: \<open>join_room\<close>, \<open>initial_state\<close>, \<open>operation\<close>.\<close>

datatype message =
    JoinRoom string
  | InitialStateMsg Document MetadataMap
  | OperationMsg string operation

datatype effect =
    Emit event
  | SocketEmit message
  | SocketConnect
  | SocketDisconnect
  | Raises error
  | Untracked

text \<open>Whether a list of effects ends the call that made it: callers go no further.\<close>

fun isInterrupt :: "effect \<Rightarrow> bool" where
  "isInterrupt (Raises e) = True"
| "isInterrupt Untracked = True"
| "isInterrupt x = False"

definition interrupted :: "effect list \<Rightarrow> bool" where
  "interrupted out = list_ex isInterrupt out"

record client =
  roomId :: string
  actorId :: string
  doc :: Document
  metadata :: MetadataMap
  offlineQueue :: "operation list"
  connected :: bool
  syncedWithServer :: bool
  isLiveMode :: bool
  remoteOperationsBuffer :: "operation list"

text \<open>The constructor.\<close>

definition newCollabDoc :: "string \<Rightarrow> string \<Rightarrow> client" where
  "newCollabDoc room actor =
     \<lparr> roomId = room, actorId = actor, doc = [], metadata = Map.empty, offlineQueue = [],
       connected = False, syncedWithServer = False, isLiveMode = True,
       remoteOperationsBuffer = [] \<rparr>"

definition opMeta :: "operation \<Rightarrow> meta" where
  "opMeta op = \<lparr> m_timestamp = op_timestamp op, m_actorId = op_actorId op,
                 m_version = op_version op \<rparr>"

text \<open>
  \<open>applyOperation(op, isRemote)\<close>. Only a walk that runs to its end reaches the metadata
  update and the \<open>change\<close> event; an early \<open>return\<close> and an exception skip both.
\<close>

definition applyOperation :: "client \<Rightarrow> operation \<Rightarrow> bool \<Rightarrow> client \<times> effect list" where
  "applyOperation s op isRemote =
     (let pathKey = stringifyPath (op_path op) in
      if clientApply (metadata s) op isRemote then
        (case walk (op_kind op) (JObj (doc s)) (op_path op) (op_value op) of
           Completed root \<Rightarrow>
             (s\<lparr> doc := rootProps root,
                 metadata := (if op_kind op = Del then (metadata s)(pathKey := None)
                              else (metadata s)(pathKey \<mapsto> opMeta op)) \<rparr>,
              [Emit (Change (op_path op) (op_kind op) (op_value op) isRemote)])
         | Abandoned root \<Rightarrow> (s\<lparr> doc := rootProps root \<rparr>, [])
         | Thrown e root \<Rightarrow> (s\<lparr> doc := rootProps root \<rparr>, [Raises e])
         | NotTracked \<Rightarrow> (s, [Untracked]))
      else (s, []))"

definition queueOrSendOperation :: "client \<Rightarrow> operation \<Rightarrow> client \<times> effect list" where
  "queueOrSendOperation s op =
     (if \<not> isLiveMode s then (s\<lparr> offlineQueue := offlineQueue s @ [op] \<rparr>, [])
      else if connected s \<and> syncedWithServer s then (s, [SocketEmit (OperationMsg (roomId s) op)])
      else (s\<lparr> offlineQueue := offlineQueue s @ [op] \<rparr>, []))"

definition processOfflineQueue :: "client \<Rightarrow> client \<times> effect list" where
  "processOfflineQueue s =
     (if connected s \<and> syncedWithServer s \<and> length (offlineQueue s) > 0 then
        (let opsToSend = offlineQueue s in
         (s\<lparr> offlineQueue := [] \<rparr>, map (\<lambda>op. SocketEmit (OperationMsg (roomId s) op)) opsToSend))
      else (s, []))"

text \<open>\<open>findIndex\<close> followed by \<open>splice(index, 1)\<close>: drop the first entry with that id.\<close>

fun removeFirstId :: "string \<Rightarrow> operation list \<Rightarrow> operation list" where
  "removeFirstId i [] = []"
| "removeFirstId i (q # qs) = (if op_id q = i then qs else q # removeFirstId i qs)"

definition applyRemoteOperation :: "client \<Rightarrow> operation \<Rightarrow> client \<times> effect list" where
  "applyRemoteOperation s op =
     (if list_ex (\<lambda>queuedOp. op_id queuedOp = op_id op) (offlineQueue s) then
        (s\<lparr> offlineQueue := removeFirstId (op_id op) (offlineQueue s) \<rparr>, [])
      else if \<not> isLiveMode s then
        (s\<lparr> remoteOperationsBuffer := remoteOperationsBuffer s @ [op] \<rparr>, [])
      else applyOperation s op True)"

subsection \<open>Local mutations\<close>

text \<open>
  \<open>Date.now()\<close> is read twice, once for the id and once for the timestamp, and
  \<open>Math.random()\<close> once; the three readings are arguments.
\<close>

definition generateOperationId :: "client \<Rightarrow> int \<Rightarrow> string \<Rightarrow> string" where
  "generateOperationId s now rnd = actorId s @ ''-'' @ showInt now @ ''-'' @ rnd"

definition getMetadata :: "client \<Rightarrow> Path \<Rightarrow> meta option" where
  "getMetadata s path = metadata s (stringifyPath path)"

definition nextVersion :: "client \<Rightarrow> Path \<Rightarrow> int" where
  "nextVersion s path = (case getMetadata s path of None \<Rightarrow> 0 | Some m \<Rightarrow> m_version m) + 1"

definition newSetOp :: "client \<Rightarrow> int \<Rightarrow> string \<Rightarrow> int \<Rightarrow> Path \<Rightarrow> jv \<Rightarrow> operation" where
  "newSetOp s idNow rnd now path v =
     \<lparr> op_id = generateOperationId s idNow rnd, op_path = path, op_kind = Set, op_value = v,
       op_timestamp = now, op_actorId = actorId s, op_version = nextVersion s path \<rparr>"

definition newDeleteOp :: "client \<Rightarrow> int \<Rightarrow> string \<Rightarrow> int \<Rightarrow> Path \<Rightarrow> operation" where
  "newDeleteOp s idNow rnd now path =
     \<lparr> op_id = generateOperationId s idNow rnd, op_path = path, op_kind = Del, op_value = JUndef,
       op_timestamp = now, op_actorId = actorId s, op_version = nextVersion s path \<rparr>"

text \<open>
  The two statements that end \<open>set\<close> and \<open>delete\<close>: \<open>this.applyOperation(op)\<close>, then
  \<open>this.queueOrSendOperation(op)\<close>, which an exception of the first skips.
\<close>

definition applyThenDispatch :: "client \<Rightarrow> operation \<Rightarrow> client \<times> effect list" where
  "applyThenDispatch s op =
     (let (s1, out1) = applyOperation s op False in
      if interrupted out1 then (s1, out1)
      else (let (s2, out2) = queueOrSendOperation s1 op in (s2, out1 @ out2)))"

definition setValue :: "client \<Rightarrow> int \<Rightarrow> string \<Rightarrow> int \<Rightarrow> Path \<Rightarrow> jv \<Rightarrow> client \<times> effect list" where
  "setValue s idNow rnd now path v = applyThenDispatch s (newSetOp s idNow rnd now path v)"

definition deleteValue :: "client \<Rightarrow> int \<Rightarrow> string \<Rightarrow> int \<Rightarrow> Path \<Rightarrow> client \<times> effect list" where
  "deleteValue s idNow rnd now path = applyThenDispatch s (newDeleteOp s idNow rnd now path)"

definition getValue :: "client \<Rightarrow> Path \<Rightarrow> error + jv" where
  "getValue s path = getFrom (JObj (doc s)) path"

subsection \<open>Transport events\<close>

definition onConnect :: "client \<Rightarrow> client \<times> effect list" where
  "onConnect s = (s\<lparr> connected := True \<rparr>, [Emit Connect, SocketEmit (JoinRoom (roomId s))])"

definition onDisconnect :: "client \<Rightarrow> string \<Rightarrow> client \<times> effect list" where
  "onDisconnect s reason = (s\<lparr> connected := False \<rparr>, [Emit (Disconnect reason)])"

text \<open>
  \<open>initial_state\<close>: the document and the metadata map are replaced by copies of the
  payload (the \<open>JSON.parse(JSON.stringify(...))\<close> round trip of a value that came over
  the wire as JSON), then the queue is flushed.
\<close>

definition onInitialState :: "client \<Rightarrow> Document \<Rightarrow> MetadataMap \<Rightarrow> client \<times> effect list" where
  "onInitialState s initialDocState initialMetadata =
     (let s1 = s\<lparr> doc := initialDocState, metadata := initialMetadata, syncedWithServer := True \<rparr>;
          (s2, out2) = processOfflineQueue s1
      in (s2, Emit Synced # out2))"

definition onOperation :: "client \<Rightarrow> string \<Rightarrow> operation \<Rightarrow> client \<times> effect list" where
  "onOperation s room op = (if room = roomId s then applyRemoteOperation s op else (s, []))"

definition onError :: "client \<Rightarrow> jv \<Rightarrow> client \<times> effect list" where
  "onError s err = (s, [Emit (Error err)])"

subsection \<open>Public connection control, pause and resume\<close>

definition connect :: "client \<Rightarrow> client \<times> effect list" where
  "connect s = (if \<not> connected s then (s, [SocketConnect]) else (s, []))"

definition disconnect :: "client \<Rightarrow> client \<times> effect list" where
  "disconnect s = (if connected s then (s, [SocketDisconnect]) else (s, []))"

definition pause :: "client \<Rightarrow> client \<times> effect list" where
  "pause s = (if isLiveMode s then (s\<lparr> isLiveMode := False \<rparr>, [Emit Pause]) else (s, []))"

text \<open>
  The \<open>while\<close> loop of \<open>resume\<close>: shift the head off the buffer, merge it as a remote
  operation (by \<open>applyOperation\<close>, not through the id check of
  \<open>applyRemoteOperation\<close>), until the buffer is empty. An exception leaves the loop and
  \<open>resume\<close> with the rest of the buffer in place.
\<close>

function drainBuffer :: "client \<Rightarrow> client \<times> effect list" where
  "drainBuffer s =
     (case remoteOperationsBuffer s of
        [] \<Rightarrow> (s, [])
      | op # rest \<Rightarrow>
          (let (s1, out1) = applyOperation (s\<lparr> remoteOperationsBuffer := rest \<rparr>) op True in
           if interrupted out1 then (s1, out1)
           else (let (s2, out2) = drainBuffer s1 in (s2, out1 @ out2))))"
  by pat_completeness auto
termination
proof (relation "measure (\<lambda>s. length (remoteOperationsBuffer s))")
  show "wf (measure (\<lambda>s. length (remoteOperationsBuffer s)))"
    by simp
next
  fix s :: client and op rest x s1 out1
  assume buf: "remoteOperationsBuffer s = op # rest"
    and x: "x = applyOperation (s\<lparr> remoteOperationsBuffer := rest \<rparr>) op True"
    and pair: "(s1, out1) = x"
  have "remoteOperationsBuffer (fst (applyOperation t op True)) = remoteOperationsBuffer t" for t
    by (simp add: applyOperation_def Let_def split: walked.split)
  from this [of "s\<lparr> remoteOperationsBuffer := rest \<rparr>"] x pair
  have "remoteOperationsBuffer s1 = rest"
    by (metis fst_conv select_convs(9) surjective update_convs(9))
  with buf show "(s1, s) \<in> measure (\<lambda>s. length (remoteOperationsBuffer s))"
    by simp
qed

declare drainBuffer.simps [simp del]

definition resume :: "client \<Rightarrow> client \<times> effect list" where
  "resume s =
     (if \<not> isLiveMode s then
        (let (s1, out1) = drainBuffer (s\<lparr> isLiveMode := True \<rparr>) in
         if interrupted out1 then (s1, out1)
         else (let (s2, out2) = processOfflineQueue (s1\<lparr> remoteOperationsBuffer := [] \<rparr>)
               in (s2, out1 @ out2 @ [Emit Resume])))
      else (s, []))"

subsection \<open>Runs of a replica\<close>

datatype input =
    CallConnect
  | CallDisconnect
  | CallSet int string int Path jv
  | CallDelete int string int Path
  | CallPause
  | CallResume
  | SocketConnected
  | SocketDisconnected string
  | SocketInitialState Document MetadataMap
  | SocketOperation string operation
  | SocketError jv

fun step :: "client \<Rightarrow> input \<Rightarrow> client \<times> effect list" where
  "step s CallConnect = connect s"
| "step s CallDisconnect = disconnect s"
| "step s (CallSet idNow rnd now path v) = setValue s idNow rnd now path v"
| "step s (CallDelete idNow rnd now path) = deleteValue s idNow rnd now path"
| "step s CallPause = pause s"
| "step s CallResume = resume s"
| "step s SocketConnected = onConnect s"
| "step s (SocketDisconnected reason) = onDisconnect s reason"
| "step s (SocketInitialState d m) = onInitialState s d m"
| "step s (SocketOperation room op) = onOperation s room op"
| "step s (SocketError err) = onError s err"

text \<open>The state after a sequence of inputs, from a given state.\<close>

fun run :: "client \<Rightarrow> input list \<Rightarrow> client" where
  "run s [] = s"
| "run s (i # is) = run (fst (step s i)) is"

subsection \<open>Reading a list of effects\<close>

text \<open>The messages handed to the transport, and the events given to listeners, in order.\<close>

fun sent :: "effect list \<Rightarrow> message list" where
  "sent [] = []"
| "sent (SocketEmit m # es) = m # sent es"
| "sent (e # es) = sent es"

fun emitted :: "effect list \<Rightarrow> event list" where
  "emitted [] = []"
| "emitted (Emit e # es) = e # emitted es"
| "emitted (x # es) = emitted es"

section \<open>The server\<close>

text \<open>
  \<open>roomStates\<close> and \<open>roomMetadata\<close> are the two global maps. \<open>rooms\<close> is the
  transport's room membership, which \<open>socket.join\<close> extends and which decides who
  receives \<open>io.to(roomId).emit\<close>. What a handler does to the outside is an emission to
  a socket or to a room, or an exception that leaves it (the handlers catch none);
  \<open>HandlerUntracked\<close> marks a handler whose walk was \<open>NotTracked\<close>.
\<close>

record server =
  roomStates :: "string \<rightharpoonup> Document"
  roomMetadata :: "string \<rightharpoonup> MetadataMap"
  rooms :: "string \<Rightarrow> string set"

datatype emission =
    ToSocket string message
  | ToRoom string message
  | HandlerRaises error
  | HandlerUntracked

definition newServer :: server where
  "newServer = \<lparr> roomStates = Map.empty, roomMetadata = Map.empty, rooms = (\<lambda>r. {}) \<rparr>"

definition onJoinRoom :: "server \<Rightarrow> string \<Rightarrow> string \<Rightarrow> server \<times> emission list" where
  "onJoinRoom sv socketId room =
     (let sv1 = sv\<lparr> rooms := (rooms sv)(room := insert socketId (rooms sv room)) \<rparr>;
          sv2 = (if roomStates sv1 room = None
                 then sv1\<lparr> roomStates := (roomStates sv1)(room \<mapsto> []) \<rparr> else sv1);
          sv3 = (if roomMetadata sv2 room = None
                 then sv2\<lparr> roomMetadata := (roomMetadata sv2)(room \<mapsto> Map.empty) \<rparr> else sv2);
          currentDocState = (case roomStates sv3 room of None \<Rightarrow> [] | Some d \<Rightarrow> d);
          currentMetadata = (case roomMetadata sv3 room of None \<Rightarrow> Map.empty | Some m \<Rightarrow> m)
      in (sv3, [ToSocket socketId (InitialStateMsg currentDocState currentMetadata)]))"

text \<open>
  The tree mutation of an accepted operation: \<open>deepSet\<close> or \<open>deepDelete\<close>. Neither
  has the client's early \<open>return\<close> from the whole merge: their result is never
  \<open>Abandoned\<close> (lemmas \<open>deepSet_not_abandoned\<close>, \<open>deepDelete_not_abandoned\<close>).
\<close>

fun abandoned :: "walked \<Rightarrow> bool" where
  "abandoned (Abandoned r) = True"
| "abandoned w = False"

definition mutateRoom :: "Document \<Rightarrow> operation \<Rightarrow> walked" where
  "mutateRoom currentRoomState operation =
     (case op_kind operation of
        Set \<Rightarrow> deepSet (JObj currentRoomState) (op_path operation) (op_value operation)
      | Del \<Rightarrow> deepDelete (JObj currentRoomState) (op_path operation))"

text \<open>
  The body of the \<open>operation\<close> handler between reading the room and broadcasting, on
  the room's document and metadata map: the merge decision, the tree mutation and, when
  the mutation ran to its end, the metadata update. An exception of the mutation leaves
  the document as mutated until then and the metadata map as it was.
\<close>

definition serverMerge :: "Document \<Rightarrow> MetadataMap \<Rightarrow> operation \<Rightarrow> Document \<times> MetadataMap" where
  "serverMerge currentRoomState currentRoomMetadata operation =
     (let pathKey = stringifyPath (op_path operation) in
      if applyServerOp currentRoomMetadata operation then
        (case mutateRoom currentRoomState operation of
           Completed root \<Rightarrow>
             (rootProps root,
              (if op_kind operation = Del then currentRoomMetadata(pathKey := None)
               else currentRoomMetadata(pathKey \<mapsto> opMeta operation)))
         | Abandoned root \<Rightarrow> (rootProps root, currentRoomMetadata)
         | Thrown e root \<Rightarrow> (rootProps root, currentRoomMetadata)
         | NotTracked \<Rightarrow> (currentRoomState, currentRoomMetadata))
      else (currentRoomState, currentRoomMetadata))"

definition roomStateOf :: "server \<Rightarrow> string \<Rightarrow> Document" where
  "roomStateOf sv room = (case roomStates sv room of None \<Rightarrow> [] | Some d \<Rightarrow> d)"

definition roomMetadataOf :: "server \<Rightarrow> string \<Rightarrow> MetadataMap" where
  "roomMetadataOf sv room = (case roomMetadata sv room of None \<Rightarrow> Map.empty | Some m \<Rightarrow> m)"

text \<open>
  The \<open>operation\<close> handler. The mutation runs before \<open>roomStates.set\<close>, the metadata
  update and \<open>io.to(roomId).emit\<close>, and nothing catches an exception of it: the three
  are then skipped. The document object of a room that exists was mutated in place; the
  \<open>{}\<close> standing in for a room that does not exist is dropped.
\<close>

definition onServerOperation ::
  "server \<Rightarrow> string \<Rightarrow> string \<Rightarrow> operation \<Rightarrow> server \<times> emission list" where
  "onServerOperation sv socketId room operation =
     (let currentRoomState = roomStateOf sv room;
          currentRoomMetadata = roomMetadataOf sv room;
          merged = serverMerge currentRoomState currentRoomMetadata operation
      in if applyServerOp currentRoomMetadata operation then
           (case mutateRoom currentRoomState operation of
              Completed root \<Rightarrow>
                (sv\<lparr> roomStates := (roomStates sv)(room \<mapsto> fst merged),
                     roomMetadata := (roomMetadata sv)(room \<mapsto> snd merged) \<rparr>,
                 [ToRoom room (OperationMsg room operation)])
            | Abandoned root \<Rightarrow> (sv, [HandlerUntracked])
            | Thrown e root \<Rightarrow>
                ((if roomStates sv room = None then sv
                  else sv\<lparr> roomStates := (roomStates sv)(room \<mapsto> fst merged) \<rparr>),
                 [HandlerRaises e])
            | NotTracked \<Rightarrow> (sv, [HandlerUntracked]))
         else (sv, [ToRoom room (OperationMsg room operation)]))"

text \<open>
  The operations of a room handled one after the other, to the state they leave and the
  emissions they make.
\<close>

fun serve :: "server \<Rightarrow> string \<Rightarrow> string \<Rightarrow> operation list \<Rightarrow> server \<times> emission list" where
  "serve sv socketId room [] = (sv, [])"
| "serve sv socketId room (operation # rest) =
     (let (sv1, out1) = onServerOperation sv socketId room operation;
          (sv2, out2) = serve sv1 socketId room rest
      in (sv2, out1 @ out2))"

text \<open>Who receives an emission, and the messages one socket receives from a list of them.\<close>

fun recipients :: "server \<Rightarrow> emission \<Rightarrow> string set" where
  "recipients sv (ToSocket socketId m) = {socketId}"
| "recipients sv (ToRoom room m) = rooms sv room"
| "recipients sv e = {}"

fun delivered :: "emission list \<Rightarrow> message list" where
  "delivered [] = []"
| "delivered (ToSocket socketId m # es) = m # delivered es"
| "delivered (ToRoom room m # es) = m # delivered es"
| "delivered (e # es) = delivered es"

definition received :: "server \<Rightarrow> emission list \<Rightarrow> string \<Rightarrow> message list" where
  "received sv ems socketId = delivered (filter (\<lambda>e. socketId \<in> recipients sv e) ems)"

section \<open>Concrete replicas, rooms and operations\<close>

text \<open>The data of the scenarios at which the properties below are evaluated.\<close>

definition opAt :: "string \<Rightarrow> Path \<Rightarrow> action \<Rightarrow> jv \<Rightarrow> int \<Rightarrow> string \<Rightarrow> int \<Rightarrow> operation" where
  "opAt i p k v t a n =
     \<lparr> op_id = i, op_path = p, op_kind = k, op_value = v, op_timestamp = t, op_actorId = a,
       op_version = n \<rparr>"

definition metaM :: MetadataMap where
  "metaM = [stringifyPath [SStr ''key''] \<mapsto>
              \<lparr> m_timestamp = 100, m_actorId = ''M'', m_version = 0 \<rparr>]"

definition replicaM :: client where
  "replicaM = (newCollabDoc ''room'' ''client-B'')
     \<lparr> doc := [(''key'', JStr ''initialValue'')], metadata := metaM,
       connected := True, syncedWithServer := True \<rparr>"

definition serverM :: server where
  "serverM = \<lparr> roomStates = [''room'' \<mapsto> [(''key'', JStr ''initialValue'')]],
               roomMetadata = [''room'' \<mapsto> metaM],
               rooms = (\<lambda>r. if r = ''room'' then {''socket-1'', ''socket-2''} else {}) \<rparr>"

definition opLargerActor :: operation where
  "opLargerActor = opAt ''op-larger-actor'' [SStr ''key''] Set (JStr ''valueLargerActor'') 100 ''Z'' 1"


text \<open>A room that two sockets have joined.\<close>

definition serverJoined :: server where
  "serverJoined =
     fst (onJoinRoom (fst (onJoinRoom newServer ''socket-1'' ''room'')) ''socket-2'' ''room'')"

text \<open>
  A set below \<open>["a"]\<close>, a set of a scalar at \<open>["a"]\<close>, then a delete and an older set
  at \<open>["a","b"]\<close>.
\<close>

definition opSetAB :: operation where
  "opSetAB = opAt ''r1'' [SStr ''a'', SStr ''b''] Set (JNum 1) 100 ''X'' 1"

definition opSetA :: operation where
  "opSetA = opAt ''r2'' [SStr ''a''] Set (JNum 5) 200 ''X'' 1"

definition opDelAB :: operation where
  "opDelAB = opAt ''r3'' [SStr ''a'', SStr ''b''] Del JUndef 300 ''Y'' 2"

definition opOldSetAB :: operation where
  "opOldSetAB = opAt ''r4'' [SStr ''a'', SStr ''b''] Set (JNum 9) 50 ''Z'' 1"

definition replicaStale :: client where
  "replicaStale = run (newCollabDoc ''room'' ''client-B'')
     [SocketConnected, SocketInitialState [] Map.empty,
      SocketOperation ''room'' opSetAB, SocketOperation ''room'' opSetA]"

definition serverStale :: server where
  "serverStale = fst (serve serverJoined ''socket-1'' ''room'' [opSetAB, opSetA])"

definition opSetA0 :: operation where
  "opSetA0 = opAt ''s1'' [SStr ''a'', SNum 0] Set (JNum 1) 100 ''X'' 1"

definition opSetAb :: operation where
  "opSetAb = opAt ''s2'' [SStr ''a'', SStr ''b''] Set (JNum 2) 200 ''X'' 1"

definition replicaFresh :: client where
  "replicaFresh = run (newCollabDoc ''room'' ''client-B'')
     [SocketConnected, SocketInitialState [] Map.empty]"

definition replicaList :: client where
  "replicaList = run (newCollabDoc ''room'' ''Alpha'')
     [SocketConnected,
      SocketInitialState [(''list'', JArr [JNum 10, JNum 20, JNum 30] [])] Map.empty]"

definition opDelList1 :: operation where
  "opDelList1 = newDeleteOp replicaList 5 ''xyz'' 5 [SStr ''list'', SNum 1]"

definition opPausedSet :: operation where
  "opPausedSet = opAt ''client-B-1-r'' [SStr ''k''] Set (JStr ''v'') 2 ''client-B'' 1"

definition replicaPausedQueued :: client where
  "replicaPausedQueued = run (newCollabDoc ''room'' ''client-B'')
     [SocketConnected, CallPause, CallSet 1 ''r'' 2 [SStr ''k''] (JStr ''v'')]"

text \<open>
  A room whose document holds a one-element list, and the set at \<open>["list","length"]\<close>
  that a replica holding the same document makes and sends.
\<close>

definition opSetList0 :: operation where
  "opSetList0 = opAt ''l1'' [SStr ''list'', SNum 0] Set (JNum 1) 100 ''X'' 1"

definition serverOneList :: server where
  "serverOneList = fst (onServerOperation serverJoined ''socket-2'' ''room'' opSetList0)"

definition replicaOneList :: client where
  "replicaOneList = run (newCollabDoc ''room'' ''client-B'')
     [SocketConnected, SocketInitialState [(''list'', JArr [JNum 1] [])] Map.empty]"

definition opSetListLength :: operation where
  "opSetListLength =
     newSetOp replicaOneList 7 ''r'' 200 [SStr ''list'', SStr ''length''] (JStr ''abc'')"

text \<open>
  The local operations of a paused replica and the remote operations that reach it, two
  of them at one path, the later one older.
\<close>

definition opPausedSetJ :: operation where
  "opPausedSetJ = opAt ''client-B-3-s'' [SStr ''j''] Set (JNum 7) 4 ''client-B'' 1"

definition opPausedDelK :: operation where
  "opPausedDelK = opAt ''client-B-5-t'' [SStr ''k''] Del JUndef 6 ''client-B'' 2"

definition opRemote :: operation where
  "opRemote = opAt ''remote-1'' [SStr ''x''] Set (JNum 1) 300 ''client-C'' 1"

definition opRemoteOlder :: operation where
  "opRemoteOlder = opAt ''remote-2'' [SStr ''x''] Set (JNum 2) 250 ''client-D'' 1"

definition pausedInputs :: "input list" where
  "pausedInputs =
     [CallSet 3 ''s'' 4 [SStr ''j''] (JNum 7),
      CallDelete 5 ''t'' 6 [SStr ''k''],
      SocketOperation ''room'' opRemote,
      SocketOperation ''room'' opRemoteOlder]"

definition replicaPausedBusy :: client where
  "replicaPausedBusy = run replicaPausedQueued pausedInputs"

definition replicaSyncedPaused :: client where
  "replicaSyncedPaused = run (newCollabDoc ''room'' ''client-B'')
     ([SocketConnected, SocketInitialState [] Map.empty, CallPause,
       CallSet 1 ''r'' 2 [SStr ''k''] (JStr ''v'')] @ pausedInputs)"

section \<open>Facts used in the evaluations\<close>

lemma showInt_small:
  "showInt 0 = ''0''" "showInt 1 = ''1''" "showInt 3 = ''3''" "showInt 5 = ''5''" "showInt 7 = ''7''"
  by code_simp+

lemma names_not_indices:
  "\<not> isCanonicalIndex ''a''" "\<not> isCanonicalIndex ''b''" "\<not> isCanonicalIndex ''k''"
  "\<not> isCanonicalIndex ''length''" "\<not> isCanonicalIndex ''hasOwnProperty''"
  "\<not> isCanonicalIndex ''__proto__''" "\<not> isCanonicalIndex ''splice''"
  by (simp_all add: isCanonicalIndex_def isDigit_def)

lemma toArrayLength_abc: "toArrayLength (JStr ''abc'') = Invalid RangeError"
  by (simp add: isWhiteSpace_def isDigit_def)

lemma stringifyPath_key: "stringifyPath [SStr ''key''] = [CHR ''['', CHR 0x22, CHR ''k'', CHR ''e'', CHR ''y'', CHR 0x22, CHR '']'']"
  by (simp add: stringifyPath_def quoteChar_def)

lemma stringifyPath_ab:
  "stringifyPath [SStr ''a'', SStr ''b''] = [CHR ''['', CHR 0x22, CHR ''a'', CHR 0x22, CHR '','', CHR 0x22, CHR ''b'', CHR 0x22, CHR '']'']"
  "stringifyPath [SStr ''a''] = [CHR ''['', CHR 0x22, CHR ''a'', CHR 0x22, CHR '']'']"
  by (simp_all add: stringifyPath_def quoteChar_def)

lemma sent_append: "sent (xs @ ys) = sent xs @ sent ys"
  by (induction xs rule: sent.induct) simp_all

lemma sent_map_SocketEmit: "sent (map (\<lambda>op. SocketEmit (f op)) ops) = map f ops"
  by (induction ops) simp_all

lemma emitted_append: "emitted (xs @ ys) = emitted xs @ emitted ys"
  by (induction xs rule: emitted.induct) simp_all

lemma applyOperation_cases:
  "applyOperation s op r =
     (if clientApply (metadata s) op r then
        (case walk (op_kind op) (JObj (doc s)) (op_path op) (op_value op) of
           Completed root \<Rightarrow>
             (s\<lparr> doc := rootProps root,
                 metadata := (if op_kind op = Del then (metadata s)(stringifyPath (op_path op) := None)
                              else (metadata s)(stringifyPath (op_path op) \<mapsto> opMeta op)) \<rparr>,
              [Emit (Change (op_path op) (op_kind op) (op_value op) r)])
         | Abandoned root \<Rightarrow> (s\<lparr> doc := rootProps root \<rparr>, [])
         | Thrown e root \<Rightarrow> (s\<lparr> doc := rootProps root \<rparr>, [Raises e])
         | NotTracked \<Rightarrow> (s, [Untracked]))
      else (s, []))"
  by (simp add: applyOperation_def Let_def)

lemmas member_eval =
  hasOwnProperty_def protoMember_def inOperator_def typeofObject_def noContainerAt_def
  freshContainer_def deleteOwn_def undefinedKey_def interrupted_def

lemma replicaFresh_state:
  "doc replicaFresh = []" "metadata replicaFresh = Map.empty" "isLiveMode replicaFresh"
  "connected replicaFresh" "syncedWithServer replicaFresh" "offlineQueue replicaFresh = []"
  "roomId replicaFresh = ''room''" "actorId replicaFresh = ''client-B''"
  by (simp_all add: replicaFresh_def newCollabDoc_def onConnect_def onInitialState_def
      processOfflineQueue_def)

lemma replicaList_state:
  "doc replicaList = [(''list'', JArr [JNum 10, JNum 20, JNum 30] [])]"
  "metadata replicaList = Map.empty" "isLiveMode replicaList"
  "connected replicaList" "syncedWithServer replicaList" "offlineQueue replicaList = []"
  "roomId replicaList = ''room''" "actorId replicaList = ''Alpha''"
  "remoteOperationsBuffer replicaList = []"
  by (simp_all add: replicaList_def newCollabDoc_def onConnect_def onInitialState_def
      processOfflineQueue_def)

lemma replicaPausedQueued_state:
  "\<not> isLiveMode replicaPausedQueued" "connected replicaPausedQueued"
  "offlineQueue replicaPausedQueued = [opPausedSet]" "roomId replicaPausedQueued = ''room''"
  by (simp_all add: replicaPausedQueued_def newCollabDoc_def onConnect_def pause_def setValue_def
      applyThenDispatch_def queueOrSendOperation_def applyOperation_cases clientApply_def
      newSetOp_def generateOperationId_def nextVersion_def getMetadata_def opPausedSet_def opAt_def
      showInt_small member_eval)

lemma replicaStale_state:
  "doc replicaStale = [(''a'', JNum 5)]"
  "metadata replicaStale (stringifyPath [SStr ''a'', SStr ''b''])
     = Some \<lparr> m_timestamp = 100, m_actorId = ''X'', m_version = 1 \<rparr>"
  by (simp_all add: replicaStale_def newCollabDoc_def onConnect_def onInitialState_def
      processOfflineQueue_def onOperation_def applyRemoteOperation_def applyOperation_cases
      clientApply_def opSetAB_def opSetA_def opAt_def opMeta_def stringifyPath_ab member_eval)

subsection \<open>The order on writer ids\<close>

text \<open>
  \<open><\<close> on strings is the lexicographic order by character code, which is what
  JavaScript's \<open><\<close> on strings computes on the code units.
\<close>

lemma string_less_lexicographic:
  "(a :: string) < b \<longleftrightarrow> (a, b) \<in> lexord {(u, v). (of_char u :: nat) < of_char v}"
  by (simp add: list_less_def less_char_def)

subsection \<open>The scenarios, evaluated\<close>

lemma serverJoined_state:
  "roomStates serverJoined = [''room'' \<mapsto> []]"
  "roomMetadata serverJoined = [''room'' \<mapsto> Map.empty]"
  "rooms serverJoined ''room'' = {''socket-1'', ''socket-2''}"
  by (auto simp add: serverJoined_def onJoinRoom_def newServer_def Let_def)

lemma stringifyPath_list:
  "stringifyPath [SStr ''k''] = [CHR ''['', CHR 0x22, CHR ''k'', CHR 0x22, CHR '']'']"
  "stringifyPath [SStr ''j''] = [CHR ''['', CHR 0x22, CHR ''j'', CHR 0x22, CHR '']'']"
  "stringifyPath [SStr ''x''] = [CHR ''['', CHR 0x22, CHR ''x'', CHR 0x22, CHR '']'']"
  by (simp_all add: stringifyPath_def quoteChar_def)

lemma serverStale_state:
  "roomStateOf serverStale ''room'' = [(''a'', JNum 5)]"
  "roomMetadataOf serverStale ''room'' (stringifyPath [SStr ''a'', SStr ''b''])
     = Some \<lparr> m_timestamp = 100, m_actorId = ''X'', m_version = 1 \<rparr>"
  "rooms serverStale ''room'' = {''socket-1'', ''socket-2''}"
  by (simp_all add: serverStale_def onServerOperation_def serverMerge_def mutateRoom_def
      roomStateOf_def roomMetadataOf_def serverJoined_state applyServerOp_def
      opSetAB_def opSetA_def opAt_def opMeta_def stringifyPath_ab member_eval Let_def)

lemma serverOneList_state:
  "roomStates serverOneList = [''room'' \<mapsto> [(''list'', JArr [JNum 1] [])]]"
  "roomMetadata serverOneList = [''room'' \<mapsto> [stringifyPath [SStr ''list'', SNum 0] \<mapsto>
       \<lparr> m_timestamp = 100, m_actorId = ''X'', m_version = 1 \<rparr>]]"
  "rooms serverOneList ''room'' = {''socket-1'', ''socket-2''}"
  by (simp_all add: serverOneList_def onServerOperation_def serverMerge_def mutateRoom_def
      roomStateOf_def roomMetadataOf_def serverJoined_state applyServerOp_def
      opSetList0_def opAt_def opMeta_def member_eval Let_def names_not_indices)

lemma replicaOneList_state:
  "doc replicaOneList = [(''list'', JArr [JNum 1] [])]"
  "metadata replicaOneList = Map.empty" "isLiveMode replicaOneList"
  "connected replicaOneList" "syncedWithServer replicaOneList" "offlineQueue replicaOneList = []"
  "roomId replicaOneList = ''room''" "actorId replicaOneList = ''client-B''"
  "remoteOperationsBuffer replicaOneList = []"
  by (simp_all add: replicaOneList_def newCollabDoc_def onConnect_def onInitialState_def
      processOfflineQueue_def)

lemma opSetListLength_fields:
  "op_path opSetListLength = [SStr ''list'', SStr ''length'']"
  "op_kind opSetListLength = Set" "op_value opSetListLength = JStr ''abc''"
  "op_timestamp opSetListLength = 200" "op_actorId opSetListLength = ''client-B''"
  by (simp_all add: opSetListLength_def newSetOp_def replicaOneList_state)

lemma length_write_raises_on_server:
  "onServerOperation serverOneList ''socket-1'' ''room'' opSetListLength
       = (serverOneList, [HandlerRaises RangeError])"
proof -
  have m: "mutateRoom [(''list'', JArr [JNum 1] [])] opSetListLength
             = Thrown RangeError (JObj [(''list'', JArr [JNum 1] [])])"
    by (simp add: mutateRoom_def opSetListLength_fields member_eval names_not_indices
        toArrayLength_abc del: toArrayLength.simps)
  have a: "applyServerOp (roomMetadataOf serverOneList ''room'') opSetListLength"
    by (simp add: applyServerOp_def roomMetadataOf_def serverOneList_state opSetListLength_fields
      stringifyPath_def quoteChar_def showInt_small)
  have u: "serverOneList\<lparr> roomStates := [''room'' \<mapsto> [(''list'', JArr [JNum 1] [])]] \<rparr> = serverOneList"
    using serverOneList_state(1) by (metis server.surjective server.update_convs(1))
  from a m show ?thesis
    by (simp add: onServerOperation_def serverMerge_def roomStateOf_def serverOneList_state Let_def u)
qed

lemma ops_ab_fields:
  "op_kind opDelAB = Del" "op_path opDelAB = [SStr ''a'', SStr ''b'']" "op_value opDelAB = JUndef"
  "op_timestamp opDelAB = 300" "op_actorId opDelAB = ''Y''"
  "op_kind opOldSetAB = Set" "op_path opOldSetAB = [SStr ''a'', SStr ''b'']"
  "op_value opOldSetAB = JNum 9" "op_timestamp opOldSetAB = 50" "op_actorId opOldSetAB = ''Z''"
  by (simp_all add: opDelAB_def opOldSetAB_def opAt_def)

lemma replicaStale_rest:
  "roomId replicaStale = ''room''" "isLiveMode replicaStale" "offlineQueue replicaStale = []"
  by (simp_all add: replicaStale_def newCollabDoc_def onConnect_def onInitialState_def
      processOfflineQueue_def onOperation_def applyRemoteOperation_def applyOperation_cases
      clientApply_def opSetAB_def opSetA_def opAt_def opMeta_def stringifyPath_ab member_eval)

lemma stale_delete_client:
  "onOperation replicaStale ''room'' opDelAB = (replicaStale\<lparr> doc := [(''a'', JNum 5)] \<rparr>, [])"
  by (simp add: onOperation_def applyRemoteOperation_def applyOperation_cases clientApply_def
      replicaStale_state replicaStale_rest ops_ab_fields member_eval
      incomingWinsByTimestamp_def incomingWinsByActorId_def timestampsAreEqual_def)

lemma stale_delete_server:
  "roomStates (fst (onServerOperation serverStale ''socket-1'' ''room'' opDelAB)) ''room''
     = Some [(''a'', JNum 5)]"
  "roomMetadata (fst (onServerOperation serverStale ''socket-1'' ''room'' opDelAB)) ''room''
     = Some ((roomMetadataOf serverStale ''room'')(stringifyPath [SStr ''a'', SStr ''b''] := None))"
  "snd (onServerOperation serverStale ''socket-1'' ''room'' opDelAB)
     = [ToRoom ''room'' (OperationMsg ''room'' opDelAB)]"
  by (simp_all add: onServerOperation_def serverMerge_def mutateRoom_def
      serverStale_state applyServerOp_def ops_ab_fields member_eval Let_def
      incomingWinsByTimestamp_def incomingWinsByActorId_def timestampsAreEqual_def)

lemma stale_run_client:
  "doc (run replicaStale [SocketOperation ''room'' opDelAB, SocketOperation ''room'' opOldSetAB])
     = [(''a'', JNum 5)]"
proof -
  let ?s1 = "replicaStale\<lparr> doc := [(''a'', JNum 5)] \<rparr>"
  have rej: "\<not> clientApply (metadata ?s1) opOldSetAB True"
    by (simp add: clientApply_def replicaStale_state ops_ab_fields
      incomingWinsByTimestamp_def incomingWinsByActorId_def timestampsAreEqual_def)
  have "applyOperation ?s1 opOldSetAB True = (?s1, [])"
    using rej by (simp add: applyOperation_def)
  then have "onOperation ?s1 ''room'' opOldSetAB = (?s1, [])"
    by (simp add: onOperation_def applyRemoteOperation_def replicaStale_rest)
  then show ?thesis
    by (simp add: stale_delete_client)
qed

lemma stale_run_server:
  "roomStateOf (fst (serve serverStale ''socket-1'' ''room'' [opDelAB, opOldSetAB])) ''room''
     = [(''a'', JObj [(''b'', JNum 9)])]"
proof -
  let ?sv1 = "fst (onServerOperation serverStale ''socket-1'' ''room'' opDelAB)"
  have st: "roomStateOf ?sv1 ''room'' = [(''a'', JNum 5)]"
    by (simp add: roomStateOf_def stale_delete_server)
  have acc: "applyServerOp (roomMetadataOf ?sv1 ''room'') opOldSetAB"
    by (simp add: roomMetadataOf_def [of ?sv1] stale_delete_server applyServerOp_def ops_ab_fields)
  have m: "mutateRoom [(''a'', JNum 5)] opOldSetAB = Completed (JObj [(''a'', JObj [(''b'', JNum 9)])])"
    by (simp add: mutateRoom_def ops_ab_fields member_eval)
  have "roomStateOf (fst (onServerOperation ?sv1 ''socket-1'' ''room'' opOldSetAB)) ''room''
          = [(''a'', JObj [(''b'', JNum 9)])]"
    using acc m st
    by (simp add: onServerOperation_def [of ?sv1] serverMerge_def Let_def
        roomStateOf_def [of "_\<lparr> roomStates := _, roomMetadata := _ \<rparr>"])
  then show ?thesis
    by (simp add: split_beta)
qed

lemma queued_ops_fields:
  "op_id opPausedSet = ''client-B-1-r''" "op_id opPausedSetJ = ''client-B-3-s''"
  "op_id opPausedDelK = ''client-B-5-t''" "op_id opRemote = ''remote-1''"
  "op_id opRemoteOlder = ''remote-2''"
  "op_path opRemote = [SStr ''x'']" "op_kind opRemote = Set" "op_value opRemote = JNum 1"
  "op_timestamp opRemote = 300" "op_actorId opRemote = ''client-C''" "op_version opRemote = 1"
  "op_path opRemoteOlder = [SStr ''x'']" "op_kind opRemoteOlder = Set" "op_value opRemoteOlder = JNum 2"
  "op_timestamp opRemoteOlder = 250" "op_actorId opRemoteOlder = ''client-D''"
  by (simp_all add: opPausedSet_def opPausedSetJ_def opPausedDelK_def opRemote_def opRemoteOlder_def
      opAt_def)

lemma replicaPausedQueued_eq:
  "replicaPausedQueued =
     \<lparr> roomId = ''room'', actorId = ''client-B'', doc = [(''k'', JStr ''v'')],
       metadata = [stringifyPath [SStr ''k''] \<mapsto> \<lparr> m_timestamp = 2, m_actorId = ''client-B'', m_version = 1 \<rparr>],
       offlineQueue = [opPausedSet],
       connected = True, syncedWithServer = False, isLiveMode = False,
       remoteOperationsBuffer = [] \<rparr>"
  by (simp add: replicaPausedQueued_def newCollabDoc_def onConnect_def pause_def setValue_def
      applyThenDispatch_def queueOrSendOperation_def applyOperation_cases clientApply_def
      newSetOp_def generateOperationId_def nextVersion_def getMetadata_def opPausedSet_def opAt_def
      opMeta_def showInt_small member_eval)

lemma paused_set_j:
  "setValue replicaPausedQueued 3 ''s'' 4 [SStr ''j''] (JNum 7) =
     (replicaPausedQueued\<lparr> doc := [(''k'', JStr ''v''), (''j'', JNum 7)],
        metadata := (metadata replicaPausedQueued)(stringifyPath [SStr ''j''] \<mapsto> opMeta opPausedSetJ),
        offlineQueue := [opPausedSet, opPausedSetJ] \<rparr>,
      [Emit (Change [SStr ''j''] Set (JNum 7) False)])"
  by (simp add: replicaPausedQueued_eq setValue_def
      applyThenDispatch_def queueOrSendOperation_def applyOperation_cases clientApply_def
      newSetOp_def generateOperationId_def nextVersion_def getMetadata_def opPausedSetJ_def opAt_def
      opMeta_def showInt_small member_eval stringifyPath_list)

lemmas client_eval =
  setValue_def deleteValue_def applyThenDispatch_def queueOrSendOperation_def applyOperation_cases
  clientApply_def newSetOp_def newDeleteOp_def generateOperationId_def nextVersion_def
  getMetadata_def onOperation_def applyRemoteOperation_def opAt_def opMeta_def showInt_small
  member_eval stringifyPath_list

lemma paused_del_k:
  "deleteValue (fst (setValue replicaPausedQueued 3 ''s'' 4 [SStr ''j''] (JNum 7))) 5 ''t'' 6 [SStr ''k''] =
     (replicaPausedQueued\<lparr> doc := [(''j'', JNum 7)],
        metadata := ((metadata replicaPausedQueued)(stringifyPath [SStr ''j''] \<mapsto> opMeta opPausedSetJ))
                      (stringifyPath [SStr ''k''] := None),
        offlineQueue := [opPausedSet, opPausedSetJ, opPausedDelK] \<rparr>,
      [Emit (Change [SStr ''k''] Del JUndef False)])"
  unfolding paused_set_j
  by (simp add: replicaPausedQueued_eq client_eval opPausedSetJ_def opPausedDelK_def)

lemma replicaPausedBusy_state:
  "doc replicaPausedBusy = [(''j'', JNum 7)]"
  "offlineQueue replicaPausedBusy = [opPausedSet, opPausedSetJ, opPausedDelK]"
  "remoteOperationsBuffer replicaPausedBusy = [opRemote, opRemoteOlder]"
  "\<not> isLiveMode replicaPausedBusy" "connected replicaPausedBusy"
  "\<not> syncedWithServer replicaPausedBusy" "roomId replicaPausedBusy = ''room''"
  unfolding replicaPausedBusy_def pausedInputs_def run.simps step.simps paused_set_j fst_conv
  by (simp_all add: replicaPausedQueued_eq client_eval opPausedSetJ_def opPausedDelK_def
      queued_ops_fields)

lemma busy_initial_state:
  "onInitialState replicaPausedBusy [] Map.empty =
     (replicaPausedBusy\<lparr> doc := [], metadata := Map.empty, syncedWithServer := True, offlineQueue := [] \<rparr>,
      [Emit Synced, SocketEmit (OperationMsg ''room'' opPausedSet),
       SocketEmit (OperationMsg ''room'' opPausedSetJ), SocketEmit (OperationMsg ''room'' opPausedDelK)])"
  by (simp add: onInitialState_def processOfflineQueue_def replicaPausedBusy_state)

lemma busy_resume:
  "resume (replicaPausedBusy\<lparr> doc := [], metadata := Map.empty, syncedWithServer := True, offlineQueue := [] \<rparr>) =
     (replicaPausedBusy\<lparr> doc := [(''x'', JNum 1)],
        metadata := [stringifyPath [SStr ''x''] \<mapsto> opMeta opRemote],
        syncedWithServer := True, offlineQueue := [], isLiveMode := True,
        remoteOperationsBuffer := [] \<rparr>,
      [Emit (Change [SStr ''x''] Set (JNum 1) True), Emit Resume])"
  apply (simp add: resume_def replicaPausedBusy_state)
  apply (subst drainBuffer.simps)
  apply (simp add: replicaPausedBusy_state applyOperation_cases clientApply_def queued_ops_fields
      member_eval stringifyPath_list)
  apply (subst drainBuffer.simps)
  apply (simp add: replicaPausedBusy_state applyOperation_cases clientApply_def queued_ops_fields
      member_eval stringifyPath_list incomingWinsByTimestamp_def incomingWinsByActorId_def
      timestampsAreEqual_def opMeta_def)
  apply (subst drainBuffer.simps)
  apply (simp add: processOfflineQueue_def replicaPausedBusy_state)
  done

lemma replicaSyncedPaused_state:
  "doc replicaSyncedPaused = [(''j'', JNum 7)]"
  "offlineQueue replicaSyncedPaused = [opPausedSet, opPausedSetJ, opPausedDelK]"
  "remoteOperationsBuffer replicaSyncedPaused = [opRemote, opRemoteOlder]"
  "\<not> isLiveMode replicaSyncedPaused" "connected replicaSyncedPaused"
  "syncedWithServer replicaSyncedPaused" "roomId replicaSyncedPaused = ''room''"
  "metadata replicaSyncedPaused (stringifyPath [SStr ''x'']) = None"
  by (simp_all add: replicaSyncedPaused_def pausedInputs_def newCollabDoc_def onConnect_def
      onInitialState_def processOfflineQueue_def pause_def client_eval
      opPausedSet_def opPausedSetJ_def opPausedDelK_def queued_ops_fields)

lemma synced_resume:
  "snd (resume replicaSyncedPaused) =
      [Emit (Change [SStr ''x''] Set (JNum 1) True),
       SocketEmit (OperationMsg ''room'' opPausedSet), SocketEmit (OperationMsg ''room'' opPausedSetJ),
       SocketEmit (OperationMsg ''room'' opPausedDelK), Emit Resume]"
  "offlineQueue (fst (resume replicaSyncedPaused)) = []"
  "doc (fst (resume replicaSyncedPaused)) = [(''j'', JNum 7), (''x'', JNum 1)]"
  "isLiveMode (fst (resume replicaSyncedPaused))"
  "remoteOperationsBuffer (fst (resume replicaSyncedPaused)) = []"
proof -
  have d: "drainBuffer (replicaSyncedPaused\<lparr> isLiveMode := True \<rparr>) =
      (replicaSyncedPaused\<lparr> isLiveMode := True, remoteOperationsBuffer := [],
         doc := [(''j'', JNum 7), (''x'', JNum 1)],
         metadata := (metadata replicaSyncedPaused)(stringifyPath [SStr ''x''] \<mapsto> opMeta opRemote) \<rparr>,
       [Emit (Change [SStr ''x''] Set (JNum 1) True)])"
    apply (subst drainBuffer.simps)
    apply (simp add: replicaSyncedPaused_state applyOperation_cases clientApply_def queued_ops_fields
        member_eval)
    apply (subst drainBuffer.simps)
    apply (simp add: replicaSyncedPaused_state applyOperation_cases clientApply_def queued_ops_fields
        member_eval incomingWinsByTimestamp_def incomingWinsByActorId_def
        timestampsAreEqual_def opMeta_def)
    apply (subst drainBuffer.simps)
    apply simp
    done
  show "snd (resume replicaSyncedPaused) =
      [Emit (Change [SStr ''x''] Set (JNum 1) True),
       SocketEmit (OperationMsg ''room'' opPausedSet), SocketEmit (OperationMsg ''room'' opPausedSetJ),
       SocketEmit (OperationMsg ''room'' opPausedDelK), Emit Resume]"
    "offlineQueue (fst (resume replicaSyncedPaused)) = []"
    "doc (fst (resume replicaSyncedPaused)) = [(''j'', JNum 7), (''x'', JNum 1)]"
    "isLiveMode (fst (resume replicaSyncedPaused))"
    "remoteOperationsBuffer (fst (resume replicaSyncedPaused)) = []"
    by (simp_all add: resume_def d replicaSyncedPaused_state processOfflineQueue_def member_eval)
qed

subsection \<open>Member names that are not data\<close>

text \<open>
  A set at \<open>["__proto__"]\<close> of a scalar changes nothing in the document and reads back
  as \<open>undefined\<close>; a walk through an inherited \<open>__proto__\<close> leaves the tree. An own
  property named \<open>hasOwnProperty\<close> makes \<open>get\<close> and every walk that asks it raise
  \<open>TypeError\<close>. \<open>length\<close> of an array is read as an own property and resizes the array
  when the server writes it.
\<close>

lemma proto_write_is_swallowed:
  "walk Set (JObj [(''k'', JStr ''v'')]) [SStr ''__proto__''] (JStr ''w'')
     = Completed (JObj [(''k'', JStr ''v'')])"
  "deepSet (JObj [(''k'', JStr ''v'')]) [SStr ''__proto__''] (JStr ''w'')
     = Completed (JObj [(''k'', JStr ''v'')])"
  "getFrom (JObj [(''k'', JStr ''v'')]) [SStr ''__proto__''] = Inr JUndef"
  by (simp_all add: member_eval)

lemma proto_path_leaves_tree:
  "walk Set (JObj []) [SStr ''__proto__'', SStr ''polluted''] (JBool True) = NotTracked"
  "deepSet (JObj []) [SStr ''__proto__'', SStr ''polluted''] (JBool True) = NotTracked"
  "walk Set (JObj []) [SStr ''__proto__''] JNull = NotTracked"
  by (simp_all add: member_eval)

lemma own_hasOwnProperty_key_raises:
  "walk Set (JObj []) [SStr ''hasOwnProperty''] (JNum 1) = Completed (JObj [(''hasOwnProperty'', JNum 1)])"
  "walk Del (JObj [(''hasOwnProperty'', JNum 1), (''k'', JNum 2)]) [SStr ''k''] JUndef
     = Thrown TypeError (JObj [(''hasOwnProperty'', JNum 1), (''k'', JNum 2)])"
  "deepDelete (JObj [(''hasOwnProperty'', JNum 1), (''k'', JNum 2)]) [SStr ''k'']
     = Thrown TypeError (JObj [(''hasOwnProperty'', JNum 1), (''k'', JNum 2)])"
  "getFrom (JObj [(''hasOwnProperty'', JNum 1), (''k'', JNum 2)]) [SStr ''k''] = Inl TypeError"
  by (simp_all add: member_eval)

lemma array_length_is_own:
  "getFrom (JObj [(''list'', JArr [JNum 1, JNum 2] [])]) [SStr ''list'', SStr ''length'']
     = Inr (JNum 2)"
  "deepSet (JObj [(''list'', JArr [JNum 1, JNum 2] [])]) [SStr ''list'', SStr ''length''] (JNum 1)
     = Completed (JObj [(''list'', JArr [JNum 1] [])])"
  "deepDelete (JObj [(''list'', JArr [JNum 1, JNum 2] [])]) [SStr ''list'', SStr ''length'']
     = Thrown TypeError (JObj [(''list'', JArr [JNum 1, JNum 2] [])])"
  by (simp_all add: member_eval names_not_indices resize_def)

subsection \<open>Dispatch, buffering and the handlers in general\<close>

lemma local_operation_is_accepted: "clientApply m op False"
  by (simp add: clientApply_def split: option.split)

lemma decisions_agree: "clientApply m op True = applyServerOp m op"
  by (simp add: clientApply_def applyServerOp_def split: option.split)

lemma paused_dispatch:
  "\<not> isLiveMode s \<Longrightarrow> queueOrSendOperation s op = (s\<lparr> offlineQueue := offlineQueue s @ [op] \<rparr>, [])"
  by (simp add: queueOrSendOperation_def)

lemma paused_remote_is_buffered:
  "\<not> isLiveMode s \<Longrightarrow> \<not> list_ex (\<lambda>queuedOp. op_id queuedOp = op_id op) (offlineQueue s) \<Longrightarrow>
   applyRemoteOperation s op = (s\<lparr> remoteOperationsBuffer := remoteOperationsBuffer s @ [op] \<rparr>, [])"
  by (simp add: applyRemoteOperation_def)

lemma applyOperation_frame:
  "offlineQueue (fst (applyOperation s op r)) = offlineQueue s"
  "isLiveMode (fst (applyOperation s op r)) = isLiveMode s"
  "connected (fst (applyOperation s op r)) = connected s"
  "syncedWithServer (fst (applyOperation s op r)) = syncedWithServer s"
  "remoteOperationsBuffer (fst (applyOperation s op r)) = remoteOperationsBuffer s"
  "sent (snd (applyOperation s op r)) = []"
  by (simp_all add: applyOperation_cases split: walked.split)

lemma paused_local_operation:
  assumes "\<not> isLiveMode s"
  shows "sent (snd (applyThenDispatch s op)) = []"
    and "isLiveMode (fst (applyThenDispatch s op)) = isLiveMode s"
    and "\<not> interrupted (snd (applyOperation s op False)) \<Longrightarrow>
           map op_id (offlineQueue (fst (applyThenDispatch s op))) = map op_id (offlineQueue s) @ [op_id op]
           \<and> last (offlineQueue (fst (applyThenDispatch s op))) = op"
    and "interrupted (snd (applyOperation s op False)) \<Longrightarrow>
           map op_id (offlineQueue (fst (applyThenDispatch s op))) = map op_id (offlineQueue s)"
    and "walk (op_kind op) (JObj (doc s)) (op_path op) (op_value op) = Completed root \<Longrightarrow>
           doc (fst (applyThenDispatch s op)) = rootProps root
           \<and> emitted (snd (applyThenDispatch s op))
                = [Change (op_path op) (op_kind op) (op_value op) False]"
  using assms
  by (simp_all add: applyThenDispatch_def split_beta queueOrSendOperation_def applyOperation_frame
      sent_append emitted_append)
     (simp_all add: applyOperation_cases local_operation_is_accepted interrupted_def)

lemma pause_when_paused: "\<not> isLiveMode s \<Longrightarrow> pause s = (s, [])"
  by (simp add: pause_def)

lemma resume_when_live: "isLiveMode s \<Longrightarrow> resume s = (s, [])"
  by (simp add: resume_def)

lemma flush_needs_no_live_mode:
  "connected s \<Longrightarrow> syncedWithServer s \<Longrightarrow> offlineQueue s \<noteq> [] \<Longrightarrow>
   sent (snd (processOfflineQueue s)) = map (OperationMsg (roomId s)) (offlineQueue s)
   \<and> offlineQueue (fst (processOfflineQueue s)) = []"
  by (simp add: processOfflineQueue_def sent_map_SocketEmit)

lemma server_rebroadcasts_unless_raised:
  "snd (onServerOperation sv socketId room op) = [ToRoom room (OperationMsg room op)]
   \<or> (applyServerOp (roomMetadataOf sv room) op
        \<and> (\<exists>root. mutateRoom (roomStateOf sv room) op \<noteq> Completed root))"
  by (simp add: onServerOperation_def Let_def split: walked.split)

subsection \<open>Where the server and a client agree\<close>

text \<open>
  The server's walks never end \<open>Abandoned\<close>. They compute what the client's walk
  computes whenever the client's walk runs to its end and, for a set, meets no container
  of the wrong kind; with the decisions being the same function, the two sides then
  produce the same document and metadata map.
\<close>

lemma setProp_not_abandoned: "\<not> abandoned (setProp c k x)"
  by (cases c) (auto split: pkey.split coerced.split)

lemma deleteProp_not_abandoned: "\<not> abandoned (deleteProp c k)"
  by (cases c) (auto split: pkey.split)

lemma deleteLast_not_abandoned: "\<not> abandoned (deleteLast c k)"
  by (cases k) (auto simp add: deleteOwn_def deleteProp_not_abandoned split: sum.split)

lemma inSlot_abandoned: "abandoned (inSlot c k w) = abandoned w"
  by (cases w) auto

lemma deepSet_not_abandoned: "\<not> abandoned (deepSet c p v)"
proof (induction p arbitrary: c)
  case Nil
  then show ?case by (simp add: setProp_not_abandoned)
next
  case (Cons k ks)
  show ?case
  proof (cases ks)
    case Nil
    then show ?thesis by (simp add: setProp_not_abandoned)
  next
    case (Cons k' ks')
    show ?thesis
      using Cons.IH setProp_not_abandoned [of c k "freshContainer k'"]
      unfolding Cons
      by (cases "setProp c k (freshContainer k')") (simp_all add: inSlot_abandoned)
  qed
qed

lemma deepDelete_not_abandoned: "\<not> abandoned (deepDelete c p)"
proof (induction p arbitrary: c)
  case Nil
  then show ?case by (simp add: deleteLast_not_abandoned)
next
  case (Cons k ks)
  show ?case
  proof (cases ks)
    case Nil
    then show ?thesis by (simp add: deleteLast_not_abandoned)
  next
    case (Cons k' ks')
    show ?thesis
      using Cons.IH unfolding Cons
      by (simp add: inSlot_abandoned)
  qed
qed

lemma wrongKindOnPath_fresh: "\<not> wrongKindOnPath (freshContainer n) q"
proof (cases q)
  case Nil
  then show ?thesis by simp
next
  case (Cons k ks)
  then show ?thesis
    by (cases ks) (auto simp add: freshContainer_def split: pkey.split)
qed

lemma wrongKindOnPath_primitive: "\<not> isObject c \<Longrightarrow> \<not> wrongKindOnPath c q"
proof (cases q)
  case Nil
  then show ?thesis by simp
next
  case (Cons k ks)
  assume "\<not> isObject c"
  then show ?thesis using Cons
    by (cases ks; cases c) simp_all
qed

lemma getProp_after_fresh:
  assumes "setProp c k (freshContainer n) = Completed c1"
  shows "\<not> wrongKindOnPath (getProp c1 k) q"
proof (cases c)
  case (JObj ps)
  with assms have "getProp c1 k = freshContainer n"
    by (auto simp add: update_conv' typeofObject_def freshContainer_def split: if_splits)
  then show ?thesis by (simp add: wrongKindOnPath_fresh)
next
  case (JArr es ps)
  show ?thesis
  proof (cases "arrayKey k")
    case (Idx i)
    with assms JArr have "getProp c1 k = freshContainer n"
      by (auto simp add: nth_append split: if_splits)
    then show ?thesis by (simp add: wrongKindOnPath_fresh)
  next
    case (Name t)
    show ?thesis
    proof (cases "t = ''length''")
      case True
      with assms JArr Name have "\<not> isObject (getProp c1 k)"
        by (auto split: coerced.splits)
      then show ?thesis by (rule wrongKindOnPath_primitive)
    next
      case False
      with assms JArr Name have "getProp c1 k = freshContainer n"
        by (auto simp add: update_conv' typeofObject_def freshContainer_def split: if_splits)
      then show ?thesis by (simp add: wrongKindOnPath_fresh)
    qed
  qed
qed (use assms in simp_all)

lemma walk_Set_step:
  assumes "walk Set c (k # k' # ks) v = Completed r"
  shows "isObject c \<and> (\<exists>own. hasOwnProperty c k = Inr own \<and>
     (if \<not> own \<or> getProp c k = JNull \<or> \<not> typeofObject (getProp c k)
          \<or> (isArray (getProp c k) \<noteq> isNumber k')
      then \<exists>c1 r'. setProp c k (freshContainer k') = Completed c1
             \<and> walk Set (getProp c1 k) (k' # ks) v = Completed r' \<and> r = putProp c1 k r'
      else \<exists>r'. walk Set (getProp c k) (k' # ks) v = Completed r' \<and> r = putProp c k r'))"
proof -
  from assms have c: "isObject c" by (simp split: if_splits)
  from assms c obtain own where own: "hasOwnProperty c k = Inr own"
    by (cases "hasOwnProperty c k") simp_all
  let ?cond = "\<not> own \<or> getProp c k = JNull \<or> \<not> typeofObject (getProp c k)
          \<or> (isArray (getProp c k) \<noteq> isNumber k')"
  show ?thesis
  proof (cases ?cond)
    case True
    with assms c own have a: "(case setProp c k (freshContainer k') of
                        Completed current1 \<Rightarrow>
                          inSlot current1 k (walk Set (getProp current1 k) (k' # ks) v)
                      | Abandoned current1 \<Rightarrow> Abandoned current1
                      | Thrown e current1 \<Rightarrow> Thrown e current1
                      | NotTracked \<Rightarrow> NotTracked) = Completed r"
      by (simp split: if_splits)
    then obtain c1 where c1: "setProp c k (freshContainer k') = Completed c1"
      by (cases "setProp c k (freshContainer k')") simp_all
    with a have "inSlot c1 k (walk Set (getProp c1 k) (k' # ks) v) = Completed r" by simp
    then obtain r' where "walk Set (getProp c1 k) (k' # ks) v = Completed r'" "r = putProp c1 k r'"
      by (cases "walk Set (getProp c1 k) (k' # ks) v") auto
    with c own True c1 show ?thesis by auto
  next
    case False
    with assms c own have "inSlot c k (walk Set (getProp c k) (k' # ks) v) = Completed r"
      by (simp split: if_splits)
    then obtain r' where "walk Set (getProp c k) (k' # ks) v = Completed r'" "r = putProp c k r'"
      by (cases "walk Set (getProp c k) (k' # ks) v") auto
    with c own False show ?thesis by auto
  qed
qed

lemma own_not_proto: "hasOwnProperty c k = Inr True \<Longrightarrow> \<not> protoMember c k"
  by (simp add: hasOwnProperty_def protoMember_def split: if_splits)

lemma hasOwn_Inr: "hasOwnProperty c k = Inr own \<Longrightarrow> own = ownProperty c k"
  by (simp add: hasOwnProperty_def split: if_splits)

lemma showNat_last: "showNat n \<noteq> [] \<and> last (showNat n) = digitChar (n mod 10)"
  by (subst showNat.simps, subst showNat.simps) simp

lemma digitChar_not_underscore: "digitChar (n mod 10) \<noteq> CHR ''_''"
proof
  assume "digitChar (n mod 10) = CHR ''_''"
  then have "(of_char (char_of (48 + n mod 10 :: nat)) :: nat) = of_char CHR ''_''"
    by (simp add: digitChar_def)
  then show False
    by (simp add: of_char_of)
qed

lemma showInt_not_proto: "showInt i \<noteq> ''__proto__''"
proof
  assume a: "showInt i = ''__proto__''"
  have "last (showInt i) = digitChar (nat \<bar>i\<bar> mod 10)"
    using showNat_last [of "nat (- i)"] showNat_last [of "nat i"]
    by (auto simp add: showInt_def abs_if)
  with a digitChar_not_underscore [of "nat \<bar>i\<bar>"] show False by simp
qed

lemma proto_is_name: "toPropertyName k = ''__proto__'' \<Longrightarrow> arrayKey k = Name ''__proto__''"
  by (cases k) (auto simp add: showInt_not_proto names_not_indices)

lemma proto_fresh_not_completed:
  assumes "protoMember c k"
  shows "setProp c k (freshContainer n) \<noteq> Completed c1"
proof -
  from assms have t: "toPropertyName k = ''__proto__''"
    by (simp add: protoMember_def)
  then have a: "arrayKey k = Name ''__proto__''" by (rule proto_is_name)
  show ?thesis
    using t a assms by (cases c) (auto simp add: typeofObject_def freshContainer_def)
qed

lemma walk_Set_deepSet:
  "walk Set c p v = Completed r \<Longrightarrow> \<not> wrongKindOnPath c p \<Longrightarrow> deepSet c p v = Completed r"
proof (induction p arbitrary: c r)
  case Nil
  then show ?case by simp
next
  case (Cons k ks)
  show ?case
  proof (cases ks)
    case Nil
    with Cons.prems show ?thesis by simp
  next
    case (Cons k' ks')
    from Cons.prems(1) have w: "walk Set c (k # k' # ks') v = Completed r"
      unfolding Cons .
    from walk_Set_step [OF w] obtain own where c: "isObject c"
      and own: "hasOwnProperty c k = Inr own"
      and br: "(if \<not> own \<or> getProp c k = JNull \<or> \<not> typeofObject (getProp c k)
          \<or> (isArray (getProp c k) \<noteq> isNumber k')
      then \<exists>c1 r'. setProp c k (freshContainer k') = Completed c1
             \<and> walk Set (getProp c1 k) (k' # ks') v = Completed r' \<and> r = putProp c1 k r'
      else \<exists>r'. walk Set (getProp c k) (k' # ks') v = Completed r' \<and> r = putProp c k r')"
      by blast
    have o: "own = ownProperty c k" using own by (rule hasOwn_Inr)
    from Cons.prems(2) have nw: "\<not> (ownProperty c k \<and> isObject (getProp c k)
      \<and> (isArray (getProp c k) \<noteq> isNumber k' \<or> wrongKindOnPath (getProp c k) (k' # ks')))"
      unfolding Cons by simp
    show ?thesis
    proof (cases "\<not> own \<or> getProp c k = JNull \<or> \<not> typeofObject (getProp c k)
          \<or> (isArray (getProp c k) \<noteq> isNumber k')")
      case True
      with br obtain c1 r' where c1: "setProp c k (freshContainer k') = Completed c1"
        and r': "walk Set (getProp c1 k) (k' # ks') v = Completed r'" and r: "r = putProp c1 k r'"
        by auto
      from c1 have np: "\<not> protoMember c k"
        using proto_fresh_not_completed [of c k k' c1] by blast
      have nc: "noContainerAt c k"
        using True nw o np
        by (auto simp add: noContainerAt_def inOperator_def typeofObject_def)
      have "walk Set (getProp c1 k) ks v = Completed r'" using r' Cons by simp
      moreover have "\<not> wrongKindOnPath (getProp c1 k) ks" by (rule getProp_after_fresh [OF c1])
      ultimately have "deepSet (getProp c1 k) ks v = Completed r'" by (rule Cons.IH)
      then have "deepSet (getProp c1 k) (k' # ks') v = Completed r'" using Cons by simp
      with c nc c1 r show ?thesis unfolding Cons by simp
    next
      case False
      with br obtain r' where r': "walk Set (getProp c k) (k' # ks') v = Completed r'"
        and r: "r = putProp c k r'"
        by auto
      from False o have ownT: "ownProperty c k" by simp
      from False have ob: "isObject (getProp c k)" by (auto simp add: typeofObject_def)
      from nw ownT ob False have rest: "\<not> wrongKindOnPath (getProp c k) (k' # ks')" by auto
      have np: "\<not> protoMember c k" using ownT by (simp add: protoMember_def)
      have nc: "\<not> noContainerAt c k"
        using False ownT np ob by (auto simp add: noContainerAt_def inOperator_def typeofObject_def)
      have "walk Set (getProp c k) ks v = Completed r'" using r' Cons by simp
      moreover have "\<not> wrongKindOnPath (getProp c k) ks" using rest Cons by simp
      ultimately have "deepSet (getProp c k) ks v = Completed r'" by (rule Cons.IH)
      then have "deepSet (getProp c k) (k' # ks') v = Completed r'" using Cons by simp
      with c nc np r show ?thesis unfolding Cons by simp
    qed
  qed
qed

lemma walk_Del_step:
  assumes "walk Del c (k # k' # ks) v = Completed r"
  shows "isObject c \<and> ownProperty c k \<and> isObject (getProp c k)
         \<and> (\<exists>r'. walk Del (getProp c k) (k' # ks) v = Completed r' \<and> r = putProp c k r')"
proof -
  from assms have c: "isObject c" by (simp split: if_splits)
  from assms c obtain own where own: "hasOwnProperty c k = Inr own"
    by (cases "hasOwnProperty c k") simp_all
  from assms c own have ok: "own \<and> getProp c k \<noteq> JNull \<and> typeofObject (getProp c k)"
    and i: "inSlot c k (walk Del (getProp c k) (k' # ks) v) = Completed r"
    by (auto split: if_splits)
  from i obtain r' where "walk Del (getProp c k) (k' # ks) v = Completed r'" "r = putProp c k r'"
    by (cases "walk Del (getProp c k) (k' # ks) v") auto
  with c ok hasOwn_Inr [OF own] show ?thesis by (auto simp add: typeofObject_def)
qed

lemma walk_Del_deepDelete:
  "walk Del c p v = Completed r \<Longrightarrow> deepDelete c p = Completed r"
proof (induction p arbitrary: c r)
  case Nil
  then show ?case by simp
next
  case (Cons k ks)
  show ?case
  proof (cases ks)
    case Nil
    with Cons.prems show ?thesis by simp
  next
    case (Cons k' ks')
    from Cons.prems have w: "walk Del c (k # k' # ks') v = Completed r"
      unfolding Cons .
    from walk_Del_step [OF w] obtain r' where c: "isObject c" and own: "ownProperty c k"
      and ob: "isObject (getProp c k)"
      and r': "walk Del (getProp c k) (k' # ks') v = Completed r'" and r: "r = putProp c k r'"
      by blast
    have np: "\<not> protoMember c k" using own by (simp add: protoMember_def)
    have nc: "\<not> noContainerAt c k"
      using own np ob by (auto simp add: noContainerAt_def inOperator_def typeofObject_def)
    have "walk Del (getProp c k) ks v = Completed r'" using r' Cons by simp
    then have "deepDelete (getProp c k) ks = Completed r'" by (rule Cons.IH)
    then have "deepDelete (getProp c k) (k' # ks') = Completed r'" using Cons by simp
    with c nc np r show ?thesis unfolding Cons by simp
  qed
qed

lemma server_client_agree:
  assumes "walk (op_kind op) (JObj (doc s)) (op_path op) (op_value op) = Completed root"
    and "op_kind op = Set \<Longrightarrow> \<not> wrongKindOnPath (JObj (doc s)) (op_path op)"
  shows "serverMerge (doc s) (metadata s) op
           = (doc (fst (applyOperation s op True)), metadata (fst (applyOperation s op True)))"
proof (cases "applyServerOp (metadata s) op")
  case False
  then show ?thesis
    by (simp add: serverMerge_def applyOperation_cases decisions_agree)
next
  case True
  have "mutateRoom (doc s) op = Completed root"
  proof (cases "op_kind op")
    case Set
    with assms walk_Set_deepSet [of "JObj (doc s)" "op_path op" "op_value op" root]
    show ?thesis by (simp add: mutateRoom_def)
  next
    case Del
    with assms walk_Del_deepDelete [of "JObj (doc s)" "op_path op" "op_value op" root]
    show ?thesis by (simp add: mutateRoom_def)
  qed
  with True assms(1) show ?thesis
    by (simp add: serverMerge_def applyOperation_cases decisions_agree)
qed

subsection \<open>What a delete does to the metadata entry\<close>

lemma completed_delete_removes_entry:
  "op_kind d = Del \<Longrightarrow> clientApply (metadata s) d r \<Longrightarrow>
   walk Del (JObj (doc s)) (op_path d) (op_value d) = Completed root \<Longrightarrow>
   metadata (fst (applyOperation s d r)) (stringifyPath (op_path d)) = None"
  "op_kind d = Del \<Longrightarrow> applyServerOp m d \<Longrightarrow> mutateRoom st d = Completed root \<Longrightarrow>
   snd (serverMerge st m d) (stringifyPath (op_path d)) = None"
  by (simp_all add: applyOperation_cases serverMerge_def)

lemma abandoned_walk_keeps_metadata:
  "clientApply (metadata s) op r \<Longrightarrow>
   walk (op_kind op) (JObj (doc s)) (op_path op) (op_value op) = Abandoned root \<Longrightarrow>
   metadata (fst (applyOperation s op r)) = metadata s \<and> snd (applyOperation s op r) = []"
  by (simp add: applyOperation_cases)

section \<open>The merge decision\<close>





section \<open>Rejection\<close>

text \<open>
  Claim C8. A remote operation that the decision rejects changes nothing on a client
  replica (\<open>applyOperation\<close> returns the state as it was; through the \<open>operation\<close>
  handler the document and the metadata map are unchanged) and no event is emitted. On
  the server the whole state is unchanged.
\<close>

theorem rejected_operation_is_dropped:
  "(\<not> clientApply (metadata s) op True \<longrightarrow>
      applyOperation s op True = (s, [])
      \<and> doc (fst (onOperation s room op)) = doc s
      \<and> metadata (fst (onOperation s room op)) = metadata s
      \<and> snd (onOperation s room op) = [])
   \<and> (\<not> applyServerOp (roomMetadataOf sv room) op \<longrightarrow>
      fst (onServerOperation sv socketId room op) = sv
      \<and> serverMerge (roomStateOf sv room) (roomMetadataOf sv room) op
          = (roomStateOf sv room, roomMetadataOf sv room))"
  by (simp add: applyOperation_def onOperation_def applyRemoteOperation_def
      onServerOperation_def serverMerge_def Let_def)

theorem rejected_operation_is_dropped_witness:
  "\<not> clientApply (metadata replicaM) opLargerActor True
   \<and> applyOperation replicaM opLargerActor True = (replicaM, [])
   \<and> doc (fst (onOperation replicaM ''room'' opLargerActor)) = [(''key'', JStr ''initialValue'')]
   \<and> snd (onOperation replicaM ''room'' opLargerActor) = []
   \<and> \<not> applyServerOp (roomMetadataOf serverM ''room'') opLargerActor
   \<and> fst (onServerOperation serverM ''socket-1'' ''room'' opLargerActor) = serverM"
proof -
  have rej: "\<not> clientApply (metadata replicaM) opLargerActor True"
    by (simp add: clientApply_def replicaM_def newCollabDoc_def metaM_def opLargerActor_def opAt_def
        stringifyPath_key incomingWinsByTimestamp_def incomingWinsByActorId_def timestampsAreEqual_def)
  have srej: "\<not> applyServerOp (roomMetadataOf serverM ''room'') opLargerActor"
    by (simp add: applyServerOp_def roomMetadataOf_def serverM_def metaM_def opLargerActor_def opAt_def
        stringifyPath_key incomingWinsByTimestamp_def incomingWinsByActorId_def timestampsAreEqual_def)
  have d: "doc replicaM = [(''key'', JStr ''initialValue'')]"
    by (simp add: replicaM_def newCollabDoc_def)
  from rej srej d
    rejected_operation_is_dropped [of replicaM opLargerActor "''room''" serverM "''socket-1''"]
  show ?thesis by simp
qed

section \<open>Where the replica and the server depart from the documented behaviour\<close>

text \<open>
  Claim C2 at a concrete input. From the empty document, the set at \<open>["a", 0]\<close> gives
  the same document and metadata on the server and on a client. The following set at
  \<open>["a", "b"]\<close>, accepted on both sides, finds an array where the next segment asks for
  a mapping: the client replaces it by a fresh mapping, while \<open>deepSet\<close> keeps the array
  and stores \<open>b\<close> as a named property on it. Lemma \<open>server_client_agree\<close> above
  says where the two sides do agree.
\<close>

theorem server_and_client_diverge_on_container_kind:
  "serverMerge [] Map.empty opSetA0
     = ([(''a'', JArr [JNum 1] [])], metadata (fst (applyOperation replicaFresh opSetA0 True)))
   \<and> doc (fst (applyOperation replicaFresh opSetA0 True)) = [(''a'', JArr [JNum 1] [])]
   \<and> wrongKindOnPath (JObj [(''a'', JArr [JNum 1] [])]) (op_path opSetAb)
   \<and> applyServerOp (metadata (fst (applyOperation replicaFresh opSetA0 True))) opSetAb
   \<and> fst (serverMerge [(''a'', JArr [JNum 1] [])]
              (metadata (fst (applyOperation replicaFresh opSetA0 True))) opSetAb)
        = [(''a'', JArr [JNum 1] [(''b'', JNum 2)])]
   \<and> doc (fst (applyOperation (fst (applyOperation replicaFresh opSetA0 True)) opSetAb True))
        = [(''a'', JObj [(''b'', JNum 2)])]"
  by (simp add: serverMerge_def applyServerOp_def applyOperation_cases clientApply_def
      replicaFresh_state opSetA0_def opSetAb_def opAt_def stringifyPath_def quoteChar_def
      showInt_small names_not_indices member_eval mutateRoom_def)

text \<open>
  Claim C3 at a concrete input. A connected, synced, live replica deletes index 1 of a
  three-element list; the operation is sent at once and is not in the offline queue. When
  the server's echo of that very operation arrives, the replica finds no id in the queue
  and no metadata at the path, applies the delete a second time and emits a second
  \<open>change\<close>.
\<close>

theorem echo_of_sent_delete_is_applied_again:
  "step replicaList (CallDelete 5 ''xyz'' 5 [SStr ''list'', SNum 1])
     = (replicaList\<lparr> doc := [(''list'', JArr [JNum 10, JNum 30] [])] \<rparr>,
        [Emit (Change [SStr ''list'', SNum 1] Del JUndef False),
         SocketEmit (OperationMsg ''room'' opDelList1)])
   \<and> offlineQueue (fst (step replicaList (CallDelete 5 ''xyz'' 5 [SStr ''list'', SNum 1]))) = []
   \<and> step (fst (step replicaList (CallDelete 5 ''xyz'' 5 [SStr ''list'', SNum 1])))
          (SocketOperation ''room'' opDelList1)
     = (replicaList\<lparr> doc := [(''list'', JArr [JNum 10] [])] \<rparr>,
        [Emit (Change [SStr ''list'', SNum 1] Del JUndef True)])"
  by (simp add: deleteValue_def applyThenDispatch_def queueOrSendOperation_def onOperation_def
      applyRemoteOperation_def applyOperation_cases clientApply_def opDelList1_def newDeleteOp_def
      replicaList_state member_eval names_not_indices)

text \<open>
  Claim C4 at a concrete input. A replica that was paused after its transport connected
  has queued a local set. When the initial state arrives, \<open>processOfflineQueue\<close> sends
  the queued operation although the replica is still paused.
\<close>

theorem initial_state_flushes_queue_while_paused:
  "\<not> isLiveMode replicaPausedQueued
   \<and> offlineQueue replicaPausedQueued = [opPausedSet]
   \<and> snd (step replicaPausedQueued (SocketInitialState [] Map.empty))
        = [Emit Synced, SocketEmit (OperationMsg ''room'' opPausedSet)]
   \<and> \<not> isLiveMode (fst (step replicaPausedQueued (SocketInitialState [] Map.empty)))
   \<and> offlineQueue (fst (step replicaPausedQueued (SocketInitialState [] Map.empty))) = []"
  by (simp add: replicaPausedQueued_state onInitialState_def processOfflineQueue_def)

text \<open>
  Claim C5 at a concrete input. The \<open>disconnect\<close> handler of a connected and synced
  replica clears \<open>connected\<close> and emits \<open>disconnect\<close> with the reason;
  \<open>syncedWithServer\<close> stays set, so after the transport reconnects a fresh local set is
  sent before any new initial state has arrived.
\<close>

theorem disconnect_keeps_synced_flag:
  "syncedWithServer replicaFresh \<and> connected replicaFresh
   \<and> snd (step replicaFresh (SocketDisconnected ''transport close''))
        = [Emit (Disconnect ''transport close'')]
   \<and> \<not> connected (fst (step replicaFresh (SocketDisconnected ''transport close'')))
   \<and> syncedWithServer (fst (step replicaFresh (SocketDisconnected ''transport close'')))
   \<and> sent (snd (step (run replicaFresh [SocketDisconnected ''transport close'', SocketConnected])
                   (CallSet 1 ''r'' 2 [SStr ''k''] (JStr ''v''))))
        = [OperationMsg ''room'' opPausedSet]"
  by (simp add: replicaFresh_state onDisconnect_def onConnect_def setValue_def
      applyThenDispatch_def queueOrSendOperation_def applyOperation_cases clientApply_def
      newSetOp_def generateOperationId_def nextVersion_def getMetadata_def opPausedSet_def opAt_def
      showInt_small member_eval)


text \<open>
  Claim C6 at a concrete input. A replica and the server have both merged a set at
  \<open>["a","b"]\<close> and then a set of a scalar at \<open>["a"]\<close>; both hold \<open>{a: 5}\<close> and
  the metadata entry of \<open>["a","b"]\<close>. A delete at \<open>["a","b"]\<close> is accepted on both
  sides. The server's \<open>deepDelete\<close> returns at the scalar and the handler deletes the
  entry; the client's walk returns from \<open>applyOperation\<close> at the scalar, before the
  metadata update: the entry stays and no \<open>change\<close> is emitted. An older set at the same
  path, arriving next, is rejected by the replica and accepted by the server, and the two
  documents differ from then on.
\<close>

theorem aborted_delete_keeps_metadata_entry:
  "doc replicaStale = [(''a'', JNum 5)]
   \<and> roomStateOf serverStale ''room'' = [(''a'', JNum 5)]
   \<and> metadata replicaStale (stringifyPath (op_path opDelAB))
       = Some \<lparr> m_timestamp = 100, m_actorId = ''X'', m_version = 1 \<rparr>
   \<and> roomMetadataOf serverStale ''room'' (stringifyPath (op_path opDelAB))
       = Some \<lparr> m_timestamp = 100, m_actorId = ''X'', m_version = 1 \<rparr>
   \<and> op_kind opDelAB = Del
   \<and> clientApply (metadata replicaStale) opDelAB True
   \<and> applyServerOp (roomMetadataOf serverStale ''room'') opDelAB
   \<and> snd (step replicaStale (SocketOperation ''room'' opDelAB)) = []
   \<and> metadata (fst (step replicaStale (SocketOperation ''room'' opDelAB))) (stringifyPath (op_path opDelAB))
       = Some \<lparr> m_timestamp = 100, m_actorId = ''X'', m_version = 1 \<rparr>
   \<and> roomMetadataOf (fst (onServerOperation serverStale ''socket-1'' ''room'' opDelAB)) ''room''
         (stringifyPath (op_path opDelAB)) = None
   \<and> op_kind opOldSetAB = Set \<and> op_path opOldSetAB = op_path opDelAB
   \<and> op_timestamp opOldSetAB < op_timestamp opDelAB
   \<and> \<not> clientApply (metadata (fst (step replicaStale (SocketOperation ''room'' opDelAB)))) opOldSetAB True
   \<and> applyServerOp (roomMetadataOf (fst (onServerOperation serverStale ''socket-1'' ''room'' opDelAB)) ''room'')
         opOldSetAB
   \<and> doc (run replicaStale [SocketOperation ''room'' opDelAB, SocketOperation ''room'' opOldSetAB])
       = [(''a'', JNum 5)]
   \<and> roomStateOf (fst (serve serverStale ''socket-1'' ''room'' [opDelAB, opOldSetAB])) ''room''
       = [(''a'', JObj [(''b'', JNum 9)])]"
  apply (intro conjI)
  subgoal by (simp add: replicaStale_state)
  subgoal by (simp add: serverStale_state)
  subgoal by (simp add: replicaStale_state ops_ab_fields)
  subgoal by (simp add: serverStale_state ops_ab_fields)
  subgoal by (simp add: ops_ab_fields)
  subgoal by (simp add: clientApply_def replicaStale_state ops_ab_fields
      incomingWinsByTimestamp_def incomingWinsByActorId_def timestampsAreEqual_def)
  subgoal by (simp add: applyServerOp_def serverStale_state ops_ab_fields
      incomingWinsByTimestamp_def incomingWinsByActorId_def timestampsAreEqual_def)
  subgoal by (simp add: stale_delete_client)
  subgoal by (simp add: stale_delete_client replicaStale_state ops_ab_fields)
  subgoal by (simp add: roomMetadataOf_def [of "fst (onServerOperation serverStale ''socket-1'' ''room'' opDelAB)"]
      stale_delete_server ops_ab_fields)
  subgoal by (simp add: ops_ab_fields)
  subgoal by (simp add: ops_ab_fields)
  subgoal by (simp add: ops_ab_fields)
  subgoal by (simp add: stale_delete_client clientApply_def replicaStale_state ops_ab_fields
      incomingWinsByTimestamp_def incomingWinsByActorId_def timestampsAreEqual_def)
  subgoal by (simp add: roomMetadataOf_def [of "fst (onServerOperation serverStale ''socket-1'' ''room'' opDelAB)"]
      stale_delete_server applyServerOp_def ops_ab_fields)
  subgoal by (rule stale_run_client)
  subgoal by (rule stale_run_server)
  done

text \<open>
  Claim C7 at a concrete input. The room's document is \<open>{list: [1]}\<close>, as is a
  replica's. The replica sets \<open>["list","length"]\<close> to \<open>"abc"\<close>: its walk replaces the
  list by a mapping, and the operation is sent. The server accepts the operation;
  \<open>deepSet\<close> keeps the list (it has no test of the container kind) and writes
  \<open>"abc"\<close> to its \<open>length\<close>, which raises \<open>RangeError\<close>. Nothing catches it: the
  handler ends before \<open>io.to(roomId).emit\<close>, the state is as it was and no member of
  the room receives the operation.
\<close>

theorem server_throws_before_rebroadcast:
  "snd (onServerOperation serverJoined ''socket-2'' ''room'' opSetList0)
     = [ToRoom ''room'' (OperationMsg ''room'' opSetList0)]
   \<and> roomStateOf serverOneList ''room'' = [(''list'', JArr [JNum 1] [])]
   \<and> doc replicaOneList = roomStateOf serverOneList ''room''
   \<and> step replicaOneList (CallSet 7 ''r'' 200 [SStr ''list'', SStr ''length''] (JStr ''abc''))
       = (replicaOneList\<lparr> doc := [(''list'', JObj [(''length'', JStr ''abc'')])],
            metadata := [stringifyPath [SStr ''list'', SStr ''length''] \<mapsto> opMeta opSetListLength] \<rparr>,
          [Emit (Change [SStr ''list'', SStr ''length''] Set (JStr ''abc'') False),
           SocketEmit (OperationMsg ''room'' opSetListLength)])
   \<and> ''socket-1'' \<in> rooms serverOneList ''room'' \<and> ''socket-2'' \<in> rooms serverOneList ''room''
   \<and> applyServerOp (roomMetadataOf serverOneList ''room'') opSetListLength
   \<and> onServerOperation serverOneList ''socket-1'' ''room'' opSetListLength
       = (serverOneList, [HandlerRaises RangeError])
   \<and> received serverOneList (snd (onServerOperation serverOneList ''socket-1'' ''room'' opSetListLength))
         ''socket-1'' = []
   \<and> received serverOneList (snd (onServerOperation serverOneList ''socket-1'' ''room'' opSetListLength))
         ''socket-2'' = []"
  apply (intro conjI)
  subgoal by (simp add: onServerOperation_def serverMerge_def mutateRoom_def
      roomStateOf_def roomMetadataOf_def serverJoined_state applyServerOp_def
      opSetList0_def opAt_def opMeta_def member_eval Let_def names_not_indices)
  subgoal by (simp add: roomStateOf_def serverOneList_state)
  subgoal by (simp add: roomStateOf_def serverOneList_state replicaOneList_state)
  subgoal by (simp add: setValue_def applyThenDispatch_def queueOrSendOperation_def applyOperation_cases
      clientApply_def opSetListLength_def newSetOp_def replicaOneList_state member_eval
      names_not_indices)
  subgoal by (simp add: serverOneList_state)
  subgoal by (simp add: serverOneList_state)
  subgoal by (simp add: applyServerOp_def roomMetadataOf_def serverOneList_state opSetListLength_fields
      stringifyPath_def quoteChar_def showInt_small)
  subgoal by (rule length_write_raises_on_server)
  subgoal by (simp add: length_write_raises_on_server received_def)
  subgoal by (simp add: length_write_raises_on_server received_def)
  done

text \<open>
  Claim C9 at a concrete input. A replica whose transport has connected is paused before
  the initial state arrives and holds one queued set. While paused, a local set and a
  local delete are applied at once (the value set is read back, the deleted key reads
  \<open>undefined\<close>), emit their \<open>change\<close>, are appended to the offline queue and send
  nothing; two remote operations are appended to the remote buffer and change nothing.
  Then the initial state arrives: \<open>processOfflineQueue\<close> sends the three queued
  operations although the replica is still paused, and the later \<open>resume\<close> merges the
  buffer in arrival order (the second operation, older at the same path, is rejected),
  finds the queue empty and sends nothing. On a replica that was synced before it was
  paused the same inputs leave the queue in place until \<open>resume\<close>, which merges the
  buffer, sends the queue in order, empties it and emits \<open>resume\<close>. \<open>pause\<close> on a
  paused replica and \<open>resume\<close> on a live one do nothing.
\<close>

theorem paused_edits_are_sent_before_resume:
  "\<not> isLiveMode replicaPausedQueued \<and> connected replicaPausedQueued
   \<and> offlineQueue replicaPausedQueued = [opPausedSet]
   \<and> snd (step replicaPausedQueued (CallSet 3 ''s'' 4 [SStr ''j''] (JNum 7)))
       = [Emit (Change [SStr ''j''] Set (JNum 7) False)]
   \<and> getValue (fst (step replicaPausedQueued (CallSet 3 ''s'' 4 [SStr ''j''] (JNum 7)))) [SStr ''j'']
       = Inr (JNum 7)
   \<and> offlineQueue (fst (step replicaPausedQueued (CallSet 3 ''s'' 4 [SStr ''j''] (JNum 7))))
       = [opPausedSet, opPausedSetJ]
   \<and> getValue (run replicaPausedQueued [CallSet 3 ''s'' 4 [SStr ''j''] (JNum 7)]) [SStr ''k'']
       = Inr (JStr ''v'')
   \<and> snd (step (run replicaPausedQueued [CallSet 3 ''s'' 4 [SStr ''j''] (JNum 7)])
              (CallDelete 5 ''t'' 6 [SStr ''k'']))
       = [Emit (Change [SStr ''k''] Del JUndef False)]
   \<and> doc (run replicaPausedQueued [CallSet 3 ''s'' 4 [SStr ''j''] (JNum 7), CallDelete 5 ''t'' 6 [SStr ''k'']])
       = [(''j'', JNum 7)]
   \<and> getValue (run replicaPausedQueued
                   [CallSet 3 ''s'' 4 [SStr ''j''] (JNum 7), CallDelete 5 ''t'' 6 [SStr ''k'']]) [SStr ''k'']
       = Inr JUndef
   \<and> offlineQueue (run replicaPausedQueued
                   [CallSet 3 ''s'' 4 [SStr ''j''] (JNum 7), CallDelete 5 ''t'' 6 [SStr ''k'']])
       = [opPausedSet, opPausedSetJ, opPausedDelK]
   \<and> snd (step (run replicaPausedQueued
                   [CallSet 3 ''s'' 4 [SStr ''j''] (JNum 7), CallDelete 5 ''t'' 6 [SStr ''k'']])
              (SocketOperation ''room'' opRemote)) = []
   \<and> doc replicaPausedBusy = [(''j'', JNum 7)]
   \<and> remoteOperationsBuffer replicaPausedBusy = [opRemote, opRemoteOlder]
   \<and> offlineQueue replicaPausedBusy = [opPausedSet, opPausedSetJ, opPausedDelK]
   \<and> \<not> isLiveMode replicaPausedBusy
   \<and> snd (step replicaPausedBusy (SocketInitialState [] Map.empty))
       = [Emit Synced, SocketEmit (OperationMsg ''room'' opPausedSet),
          SocketEmit (OperationMsg ''room'' opPausedSetJ), SocketEmit (OperationMsg ''room'' opPausedDelK)]
   \<and> \<not> isLiveMode (fst (step replicaPausedBusy (SocketInitialState [] Map.empty)))
   \<and> offlineQueue (fst (step replicaPausedBusy (SocketInitialState [] Map.empty))) = []
   \<and> snd (step (run replicaPausedBusy [SocketInitialState [] Map.empty]) CallResume)
       = [Emit (Change [SStr ''x''] Set (JNum 1) True), Emit Resume]
   \<and> doc (run replicaPausedBusy [SocketInitialState [] Map.empty, CallResume]) = [(''x'', JNum 1)]
   \<and> isLiveMode (run replicaPausedBusy [SocketInitialState [] Map.empty, CallResume])
   \<and> remoteOperationsBuffer (run replicaPausedBusy [SocketInitialState [] Map.empty, CallResume]) = []
   \<and> offlineQueue replicaSyncedPaused = [opPausedSet, opPausedSetJ, opPausedDelK]
   \<and> remoteOperationsBuffer replicaSyncedPaused = [opRemote, opRemoteOlder]
   \<and> snd (step replicaSyncedPaused CallResume)
       = [Emit (Change [SStr ''x''] Set (JNum 1) True),
          SocketEmit (OperationMsg ''room'' opPausedSet), SocketEmit (OperationMsg ''room'' opPausedSetJ),
          SocketEmit (OperationMsg ''room'' opPausedDelK), Emit Resume]
   \<and> offlineQueue (fst (step replicaSyncedPaused CallResume)) = []
   \<and> doc (fst (step replicaSyncedPaused CallResume)) = [(''j'', JNum 7), (''x'', JNum 1)]
   \<and> step replicaPausedBusy CallPause = (replicaPausedBusy, [])
   \<and> step replicaFresh CallResume = (replicaFresh, [])"
proof -
  let ?setJ = "CallSet 3 ''s'' 4 [SStr ''j''] (JNum 7)" and ?delK = "CallDelete 5 ''t'' 6 [SStr ''k'']"
  have q: "\<not> isLiveMode replicaPausedQueued \<and> connected replicaPausedQueued
           \<and> offlineQueue replicaPausedQueued = [opPausedSet]"
    by (simp add: replicaPausedQueued_state)
  have s1: "snd (step replicaPausedQueued ?setJ) = [Emit (Change [SStr ''j''] Set (JNum 7) False)]"
    "getValue (fst (step replicaPausedQueued ?setJ)) [SStr ''j''] = Inr (JNum 7)"
    "offlineQueue (fst (step replicaPausedQueued ?setJ)) = [opPausedSet, opPausedSetJ]"
    "getValue (run replicaPausedQueued [?setJ]) [SStr ''k''] = Inr (JStr ''v'')"
    by (simp_all add: paused_set_j getValue_def member_eval)
  have s2: "snd (step (run replicaPausedQueued [?setJ]) ?delK) = [Emit (Change [SStr ''k''] Del JUndef False)]"
    "doc (run replicaPausedQueued [?setJ, ?delK]) = [(''j'', JNum 7)]"
    "getValue (run replicaPausedQueued [?setJ, ?delK]) [SStr ''k''] = Inr JUndef"
    "offlineQueue (run replicaPausedQueued [?setJ, ?delK]) = [opPausedSet, opPausedSetJ, opPausedDelK]"
    by (simp_all add: paused_del_k getValue_def member_eval)
  have s3: "snd (step (run replicaPausedQueued [?setJ, ?delK]) (SocketOperation ''room'' opRemote)) = []"
    by (simp add: paused_del_k onOperation_def applyRemoteOperation_def replicaPausedQueued_state
        queued_ops_fields)
  have b: "doc replicaPausedBusy = [(''j'', JNum 7)]"
    "remoteOperationsBuffer replicaPausedBusy = [opRemote, opRemoteOlder]"
    "offlineQueue replicaPausedBusy = [opPausedSet, opPausedSetJ, opPausedDelK]"
    "\<not> isLiveMode replicaPausedBusy"
    by (simp_all add: replicaPausedBusy_state)
  have i: "snd (step replicaPausedBusy (SocketInitialState [] Map.empty))
       = [Emit Synced, SocketEmit (OperationMsg ''room'' opPausedSet),
          SocketEmit (OperationMsg ''room'' opPausedSetJ), SocketEmit (OperationMsg ''room'' opPausedDelK)]"
    "\<not> isLiveMode (fst (step replicaPausedBusy (SocketInitialState [] Map.empty)))"
    "offlineQueue (fst (step replicaPausedBusy (SocketInitialState [] Map.empty))) = []"
    by (simp_all add: busy_initial_state replicaPausedBusy_state)
  have r: "snd (step (run replicaPausedBusy [SocketInitialState [] Map.empty]) CallResume)
       = [Emit (Change [SStr ''x''] Set (JNum 1) True), Emit Resume]"
    "doc (run replicaPausedBusy [SocketInitialState [] Map.empty, CallResume]) = [(''x'', JNum 1)]"
    "isLiveMode (run replicaPausedBusy [SocketInitialState [] Map.empty, CallResume])"
    "remoteOperationsBuffer (run replicaPausedBusy [SocketInitialState [] Map.empty, CallResume]) = []"
    by (simp_all add: busy_initial_state busy_resume)
  have y: "offlineQueue replicaSyncedPaused = [opPausedSet, opPausedSetJ, opPausedDelK]"
    "remoteOperationsBuffer replicaSyncedPaused = [opRemote, opRemoteOlder]"
    "snd (step replicaSyncedPaused CallResume)
       = [Emit (Change [SStr ''x''] Set (JNum 1) True),
          SocketEmit (OperationMsg ''room'' opPausedSet), SocketEmit (OperationMsg ''room'' opPausedSetJ),
          SocketEmit (OperationMsg ''room'' opPausedDelK), Emit Resume]"
    "offlineQueue (fst (step replicaSyncedPaused CallResume)) = []"
    "doc (fst (step replicaSyncedPaused CallResume)) = [(''j'', JNum 7), (''x'', JNum 1)]"
    by (simp_all add: replicaSyncedPaused_state synced_resume)
  have n: "step replicaPausedBusy CallPause = (replicaPausedBusy, [])"
    "step replicaFresh CallResume = (replicaFresh, [])"
    by (simp_all add: pause_def resume_def replicaPausedBusy_state replicaFresh_state)
  from q s1 s2 s3 b i r y n show ?thesis
    by (intro conjI) (simp_all only: simp_thms)
qed

end
